theory Spec2Isabelle
  imports Main "HOL-Library.Sublist"
begin

section \<open>Data model (app/models.py)\<close>

text \<open>
  The enumerations of \<^verbatim>\<open>models.py\<close>. \<^verbatim>\<open>PaymentMethod.CARD\<close> and
  \<^verbatim>\<open>ServiceType.CARD\<close> are different values of different enums; the constructors
  carry a prefix where the names would clash.
\<close>

datatype UserRole = SUPER_USER | BRANCH_ADMIN | MANAGER | CASHIER | WAITER | KITCHEN

datatype PaymentMethod = PM_CASH | PM_CARD | PM_QR_CODE

datatype ServiceType = ON_TABLE | TAKE_AWAY | DELIVERY | ST_CARD

datatype OrderStatus = PENDING | PAID | CANCELLED

text \<open>
  A \<^verbatim>\<open>datetime\<close> is a number of seconds (UTC); \<^verbatim>\<open>func.date(...)\<close> and
  \<^verbatim>\<open>datetime.utcnow().date()\<close> are the day number. The clock is an argument
  \<open>now\<close> of every operation that reads it.
\<close>

type_synonym datetime = nat

definition date_of :: "datetime \<Rightarrow> nat" where
  "date_of t = t div 86400"

text \<open>Rows. A nullable column is an \<open>option\<close>; money is an integer number of hundredths.\<close>

record User =
  u_id :: nat
  u_first_name :: string
  u_last_name :: string
  u_role :: UserRole
  u_branch_id :: "nat option"
  u_is_active :: bool

record Order =
  o_id :: nat
  order_number :: string
  order_counter :: "int option"
  total_amount :: int
  payment_method :: "PaymentMethod option"
  service_type :: "ServiceType option"
  status :: OrderStatus
  o_notes :: "string option"
  created_at :: "datetime option"
  paid_at :: "datetime option"
  cleared_from_waiter_requests :: "bool option"
  last_edited_at :: "datetime option"
  last_edited_by :: "nat option"
  edit_count :: "int option"
  branch_id :: nat
  cashier_id :: "nat option"
  assigned_cashier_id :: "nat option"
  table_id :: "nat option"

record OrderItem =
  oi_id :: nat
  oi_order_id :: nat
  oi_menu_item_id :: nat
  oi_quantity :: int
  oi_unit_price :: int
  oi_total_price :: int
  oi_notes :: "string option"
  oi_special_requests :: "string option"
  oi_is_new :: bool
  oi_is_deleted :: bool

record OrderEditHistory =
  h_order_id :: nat
  h_edited_by :: nat
  h_edited_at :: datetime
  h_original_total :: int
  h_new_total :: int
  h_changes_summary :: string

record AuditLog =
  a_user_id :: nat
  a_action :: string
  a_description :: string

record CashierSession =
  s_session_id :: string
  s_login_date :: nat
  s_initial_order_count :: int
  s_current_order_count :: int
  s_daily_report_printed :: bool
  s_report_printed_at :: "datetime option"
  s_last_activity :: "datetime option"
  s_is_active :: bool
  s_branch_id :: nat
  s_cashier_id :: nat

record OrderCounter =
  c_branch_id :: nat
  c_current_counter :: int
  c_last_reset_date :: "nat option"
  c_updated_at :: "datetime option"

record WaiterCashierAssignment =
  w_waiter_id :: nat
  w_branch_id :: nat
  w_assigned_cashier_id :: nat
  w_assigned_by_cashier_id :: "nat option"

record MenuItem =
  m_id :: nat
  m_name :: string
  m_price :: int

record TableRow =
  t_id :: nat
  t_table_number :: string

text \<open>
  The database engine behind SQLAlchemy. \<^verbatim>\<open>config.py\<close> takes the URI from the
  environment and falls back to SQLite (\<^verbatim>\<open>'sqlite:///restaurant_pos.db'\<close>, the
  development default and the testing configuration); the production configuration is
  written for PostgreSQL. The two engines differ in how \<^verbatim>\<open>LIKE\<close> compares letters.
\<close>

datatype db_engine = SQLite | PostgreSQL

text \<open>
  The database: its engine, and one list of rows per table, in the order the queries return
  them (\<^verbatim>\<open>.first()\<close> is the first row of the list that passes the filter).
\<close>

record db =
  engine :: db_engine
  users :: "User list"
  orders :: "Order list"
  order_items :: "OrderItem list"
  order_edit_history :: "OrderEditHistory list"
  audit_logs :: "AuditLog list"
  cashier_sessions :: "CashierSession list"
  order_counters :: "OrderCounter list"
  waiter_cashier_assignments :: "WaiterCashierAssignment list"
  menu_items :: "MenuItem list"
  tables :: "TableRow list"

definition get_full_name :: "User \<Rightarrow> string" where
  "get_full_name u = u_first_name u @ '' '' @ u_last_name u"

text \<open>\<^verbatim>\<open>Order.query.get(id)\<close>: the row with that primary key, if any.\<close>

definition get_order :: "db \<Rightarrow> nat \<Rightarrow> Order option" where
  "get_order d i = find (\<lambda>r. o_id r = i) (orders d)"

definition get_user :: "db \<Rightarrow> nat \<Rightarrow> User option" where
  "get_user d i = find (\<lambda>u. u_id u = i) (users d)"

text \<open>Writing a changed row back: every row with that primary key is replaced.\<close>

definition put_order :: "Order \<Rightarrow> db \<Rightarrow> db" where
  "put_order r' d = d\<lparr>orders := map (\<lambda>r. if o_id r = o_id r' then r' else r) (orders d)\<rparr>"

text \<open>The JSON body and HTTP status of a response, reduced to the fields callers branch on.\<close>

record response =
  success :: bool
  http_status :: nat
  message :: string
  error_type :: "string option"

definition ok_response :: "string \<Rightarrow> response" where
  "ok_response msg = \<lparr>success = True, http_status = 200, message = msg, error_type = None\<rparr>"

definition fail_response :: "nat \<Rightarrow> string \<Rightarrow> response" where
  "fail_response code msg = \<lparr>success = False, http_status = code, message = msg, error_type = None\<rparr>"

text \<open>Python's \<^verbatim>\<open>str(n)\<close> for a count, as the f-strings of the messages use it.\<close>

fun str_nat :: "nat \<Rightarrow> string" where
  "str_nat n = (if n < 10 then [''0123456789'' ! n]
                else str_nat (n div 10) @ [''0123456789'' ! (n mod 10)])"

declare str_nat.simps [simp del]

text \<open>
  Substring search, letter for letter (Python's \<^verbatim>\<open>pat in s\<close>, and a \<^verbatim>\<open>LIKE '%pat%'\<close>
  whose pattern holds no wildcard on an engine that compares case-sensitively).
\<close>

fun like_contains :: "string \<Rightarrow> string \<Rightarrow> bool" where
  "like_contains pat [] = (pat = [])"
| "like_contains pat (c # cs) = (prefix pat (c # cs) \<or> like_contains pat cs)"

text \<open>
  \<^verbatim>\<open>Order.notes.like('%[WAITER ORDER]%')\<close> and \<^verbatim>\<open>Order.notes.contains('[WAITER ORDER]')\<close>:
  both are the SQL pattern match \<^verbatim>\<open>LIKE '%[WAITER ORDER]%'\<close>, true when the text occurs
  somewhere in the column and never true for a \<open>NULL\<close> column. PostgreSQL compares
  the letters as they are; SQLite's \<^verbatim>\<open>LIKE\<close> ignores the case of the 26 ASCII letters
  (no \<^verbatim>\<open>PRAGMA case_sensitive_like\<close> is set anywhere), which is folding both sides to
  lower case before the search.
\<close>

definition ascii_lower :: "char \<Rightarrow> char" where
  "ascii_lower c =
     (case map_of (zip ''ABCDEFGHIJKLMNOPQRSTUVWXYZ'' ''abcdefghijklmnopqrstuvwxyz'') c of
        None \<Rightarrow> c
      | Some l \<Rightarrow> l)"

definition sql_like_contains :: "db_engine \<Rightarrow> string \<Rightarrow> string \<Rightarrow> bool" where
  "sql_like_contains e pat s =
     (case e of
        PostgreSQL \<Rightarrow> like_contains pat s
      | SQLite \<Rightarrow> like_contains (map ascii_lower pat) (map ascii_lower s))"

definition WAITER_TAG :: string where
  "WAITER_TAG = ''[WAITER ORDER]''"

definition is_waiter_order :: "db_engine \<Rightarrow> Order \<Rightarrow> bool" where
  "is_waiter_order e r =
     (case o_notes r of None \<Rightarrow> False | Some n \<Rightarrow> sql_like_contains e WAITER_TAG n)"

section \<open>Marking an order paid (pos/views.py, mark\_order\_paid)\<close>

text \<open>
  \<^verbatim>\<open>Order.query.get_or_404\<close> raises for an unknown id; the handler's
  \<^verbatim>\<open>except Exception\<close> catches it, rolls back and answers 500. The socket
  notifications sent after the commit do not touch the database and are left out.
\<close>

definition mark_order_paid :: "User \<Rightarrow> nat \<Rightarrow> datetime \<Rightarrow> db \<Rightarrow> response \<times> db" where
  "mark_order_paid current_user order_id now d =
     (if u_role current_user \<notin> {CASHIER, BRANCH_ADMIN, SUPER_USER}
      then (fail_response 403 ''Access denied'', d)
      else case get_order d order_id of
        None \<Rightarrow> (fail_response 500 ''Error marking order as paid: 404 Not Found'', d)
      | Some order \<Rightarrow>
          if u_role current_user \<notin> {SUPER_USER} \<and> Some (branch_id order) \<noteq> u_branch_id current_user
          then (fail_response 403 ''Access denied - different branch'', d)
          else if status order = PAID
          then (fail_response 400 ''Order is already paid'', d)
          else (ok_response ''Order marked as paid successfully'',
                put_order (order\<lparr>status := PAID, paid_at := Some now\<rparr>) d))"

section \<open>The logout gate (pos/views.py, check\_logout\_permission)\<close>

record logout_response =
  lr_success :: bool
  can_logout :: bool
  reason :: "string option"
  lr_orders_today :: "nat option"
  lr_orders_after_report :: "nat option"
  lr_unpaid_waiter_orders :: "nat option"
  action_required :: "string option"

text \<open>
  Step 1: the sessions of this cashier today with a printed report, latest report first;
  \<open>last_report_time\<close> is the greatest \<open>report_printed_at\<close> among them.
\<close>

definition report_times :: "db \<Rightarrow> nat \<Rightarrow> nat \<Rightarrow> datetime list" where
  "report_times d cashier today =
     List.map_filter
       (\<lambda>s. if s_cashier_id s = cashier \<and> s_login_date s = today \<and> s_daily_report_printed s
            then s_report_printed_at s else None)
       (cashier_sessions d)"

definition last_report_time_of :: "db \<Rightarrow> nat \<Rightarrow> nat \<Rightarrow> datetime option" where
  "last_report_time_of d cashier today =
     (case report_times d cashier today of [] \<Rightarrow> None | t # ts \<Rightarrow> Some (fold max ts t))"

text \<open>Orders created by or assigned to the cashier, created today.\<close>

definition own_order_today :: "nat \<Rightarrow> nat \<Rightarrow> Order \<Rightarrow> bool" where
  "own_order_today cashier today r =
     ((cashier_id r = Some cashier \<or> assigned_cashier_id r = Some cashier)
      \<and> (case created_at r of None \<Rightarrow> False | Some t \<Rightarrow> date_of t = today))"

definition count_orders_after_report :: "db \<Rightarrow> nat \<Rightarrow> nat \<Rightarrow> nat" where
  "count_orders_after_report d cashier today =
     (case last_report_time_of d cashier today of
        Some last_report_time \<Rightarrow>
          length (filter (\<lambda>r. own_order_today cashier today r
                              \<and> (case created_at r of None \<Rightarrow> False | Some t \<Rightarrow> last_report_time < t))
                         (orders d))
      | None \<Rightarrow> length (filter (own_order_today cashier today) (orders d)))"

text \<open>Step 2: unpaid waiter orders assigned to the cashier (any day).\<close>

definition unpaid_waiter_orders_query :: "db \<Rightarrow> nat \<Rightarrow> Order list" where
  "unpaid_waiter_orders_query d cashier =
     filter (\<lambda>r. assigned_cashier_id r = Some cashier \<and> is_waiter_order (engine d) r
                        \<and> status r = PENDING)
            (orders d)"

definition count_unpaid_waiter_orders :: "db \<Rightarrow> nat \<Rightarrow> nat" where
  "count_unpaid_waiter_orders d cashier = length (unpaid_waiter_orders_query d cashier)"

definition count_total_orders_today :: "db \<Rightarrow> nat \<Rightarrow> nat \<Rightarrow> nat" where
  "count_total_orders_today d cashier today = length (filter (own_order_today cashier today) (orders d))"

text \<open>
  Steps 4 and 5, on the three counts. The \<^verbatim>\<open>last_report_time\<close> field of the answer is
  a formatted local time and is left out.
\<close>

definition logout_decision :: "nat \<Rightarrow> nat \<Rightarrow> nat \<Rightarrow> bool \<Rightarrow> logout_response" where
  "logout_decision total_orders_today orders_after_report unpaid_waiter_orders reported =
     (let needs_report = (0 < orders_after_report);
          has_unpaid_waiter_orders = (0 < unpaid_waiter_orders);
          counts = \<lparr>lr_success = True, can_logout = False, reason = None,
                    lr_orders_today = Some total_orders_today,
                    lr_orders_after_report = Some orders_after_report,
                    lr_unpaid_waiter_orders = Some unpaid_waiter_orders,
                    action_required = None\<rparr>
      in if needs_report \<and> has_unpaid_waiter_orders then
           counts\<lparr>reason := Some (''You have '' @ str_nat orders_after_report
                      @ '' orders since your last report AND '' @ str_nat unpaid_waiter_orders
                      @ '' unpaid waiter orders. You must first process/transfer all unpaid waiter orders, then generate your daily report!''),
                  action_required := Some ''both''\<rparr>
         else if needs_report \<and> \<not> has_unpaid_waiter_orders then
           counts\<lparr>reason := Some (''You have '' @ str_nat orders_after_report
                      @ '' orders since your last report. Generate your daily report to logout!''),
                  action_required := Some ''report''\<rparr>
         else if \<not> needs_report \<and> has_unpaid_waiter_orders then
           counts\<lparr>reason := Some (''You have '' @ str_nat unpaid_waiter_orders
                      @ '' unpaid waiter orders. Process all waiter orders or transfer them to another cashier, then generate your daily report!''),
                  action_required := Some ''waiter_orders_then_report''\<rparr>
         else
           counts\<lparr>can_logout := True,
                  reason := Some (if reported
                                  then ''No new orders since last report and no unpaid waiter orders''
                                  else ''No orders today''),
                  action_required := Some ''none''\<rparr>)"

text \<open>
  The body of the \<^verbatim>\<open>try\<close> block. Its statements only read the database; what can raise
  in it is the storage itself. \<open>fault\<close> is the exception the queries raise, if any
  (\<open>None\<close>: the storage answers). An exception is the \<open>Inl\<close> result.
\<close>

definition logout_rules :: "User \<Rightarrow> datetime \<Rightarrow> string option \<Rightarrow> db \<Rightarrow> string + logout_response" where
  "logout_rules current_user now fault d =
     (case fault of
        Some e \<Rightarrow> Inl e
      | None \<Rightarrow>
          (let today = date_of now;
               cashier = u_id current_user
           in Inr (logout_decision
                     (count_total_orders_today d cashier today)
                     (count_orders_after_report d cashier today)
                     (count_unpaid_waiter_orders d cashier)
                     (last_report_time_of d cashier today \<noteq> None))))"

text \<open>The handler: other roles may always log out; an exception in the rules allows the logout.\<close>

definition check_logout_permission :: "User \<Rightarrow> datetime \<Rightarrow> string option \<Rightarrow> db \<Rightarrow> logout_response" where
  "check_logout_permission current_user now fault d =
     (if u_role current_user \<noteq> CASHIER
      then \<lparr>lr_success = True, can_logout = True, reason = None, lr_orders_today = None,
            lr_orders_after_report = None, lr_unpaid_waiter_orders = None, action_required = None\<rparr>
      else case logout_rules current_user now fault d of
        Inr r \<Rightarrow> r
      | Inl e \<Rightarrow> \<lparr>lr_success = True, can_logout = True,
                   reason = Some ''System error - logout allowed'', lr_orders_today = None,
                   lr_orders_after_report = None, lr_unpaid_waiter_orders = None,
                   action_required = None\<rparr>)"

section \<open>Transferring waiter orders (pos/views.py, transfer\_orders)\<close>

record transfer_response =
  tr_success :: bool
  tr_error :: "string option"
  tr_message :: "string option"
  transferred_count :: "nat option"

definition transfer_fail :: "string \<Rightarrow> transfer_response" where
  "transfer_fail e = \<lparr>tr_success = False, tr_error = Some e, tr_message = None, transferred_count = None\<rparr>"

text \<open>The rows the handler selects: the requested ids that are assigned to the caller, pending and tagged.\<close>

definition transferable :: "db_engine \<Rightarrow> nat \<Rightarrow> Order \<Rightarrow> bool" where
  "transferable e cashier r =
     (assigned_cashier_id r = Some cashier \<and> status r = PENDING \<and> is_waiter_order e r)"

definition orders_to_transfer_query :: "db \<Rightarrow> nat \<Rightarrow> nat list \<Rightarrow> Order list" where
  "orders_to_transfer_query d cashier order_ids =
     filter (\<lambda>r. o_id r \<in> set order_ids \<and> transferable (engine d) cashier r) (orders d)"

text \<open>
  \<open>stamp\<close> is the text of \<^verbatim>\<open>datetime.now().strftime('%Y-%m-%d %H:%M:%S')\<close>. A selected row
  has a non-\<open>NULL\<close> \<open>notes\<close> column (it passed the pattern match), so the concatenation
  \<^verbatim>\<open>order.notes + transfer_note\<close> cannot raise.
\<close>

definition transfer_note :: "User \<Rightarrow> User \<Rightarrow> string \<Rightarrow> string" where
  "transfer_note current_user target_cashier stamp =
     CHR 0x0A # ''[TRANSFERRED] From: '' @ get_full_name current_user @ '' to: ''
       @ get_full_name target_cashier @ '' at '' @ stamp"

definition transfer_audit :: "User \<Rightarrow> User \<Rightarrow> Order \<Rightarrow> AuditLog" where
  "transfer_audit current_user target_cashier r =
     \<lparr>a_user_id = u_id current_user, a_action = ''ORDER_TRANSFERRED'',
      a_description = ''Order '' @ order_number r @ '' transferred from '' @ get_full_name current_user
                      @ '' to '' @ get_full_name target_cashier\<rparr>"

definition transfer_one :: "User \<Rightarrow> User \<Rightarrow> nat \<Rightarrow> string \<Rightarrow> Order \<Rightarrow> Order" where
  "transfer_one current_user target_cashier target_cashier_id stamp r =
     r\<lparr>assigned_cashier_id := Some target_cashier_id,
       o_notes := Some (the (o_notes r) @ transfer_note current_user target_cashier stamp)\<rparr>"

definition transfer_orders ::
  "User \<Rightarrow> nat list \<Rightarrow> nat option \<Rightarrow> string \<Rightarrow> db \<Rightarrow> transfer_response \<times> db" where
  "transfer_orders current_user order_ids target_cashier_id stamp d =
     (if u_role current_user \<noteq> CASHIER
      then (transfer_fail ''Only cashiers can transfer orders'', d)
      else if order_ids = [] \<or> target_cashier_id = None \<or> target_cashier_id = Some 0
      then (transfer_fail ''Missing order IDs or target cashier'', d)
      else case get_user d (the target_cashier_id) of
        None \<Rightarrow> (transfer_fail ''Invalid target cashier'', d)
      | Some target_cashier \<Rightarrow>
          if u_branch_id target_cashier \<noteq> u_branch_id current_user \<or> u_role target_cashier \<noteq> CASHIER
          then (transfer_fail ''Invalid target cashier'', d)
          else
            let orders_to_transfer = orders_to_transfer_query d (u_id current_user) order_ids
            in if length orders_to_transfer \<noteq> length order_ids
               then (transfer_fail ''Some orders cannot be transferred'', d)
               else
                 (\<lparr>tr_success = True, tr_error = None,
                   tr_message = Some (''Successfully transferred '' @ str_nat (length orders_to_transfer)
                                      @ '' orders to '' @ get_full_name target_cashier),
                   transferred_count = Some (length orders_to_transfer)\<rparr>,
                  d\<lparr>orders :=
                      map (\<lambda>r. if o_id r \<in> set order_ids \<and> transferable (engine d) (u_id current_user) r
                               then transfer_one current_user target_cashier (the target_cashier_id) stamp r
                               else r)
                          (orders d),
                    audit_logs :=
                      audit_logs d @ map (transfer_audit current_user target_cashier) orders_to_transfer\<rparr>))"

section \<open>The waiter-requests listing (pos/views.py, waiter\_requests)\<close>

text \<open>
  The query of the AJAX listing, before sorting and pagination (which only order and cut
  the selected rows): by role, then by the status filter. Other roles are redirected and
  get no listing.
\<close>

definition waiter_requests_query :: "User \<Rightarrow> string \<Rightarrow> db \<Rightarrow> Order list" where
  "waiter_requests_query current_user status_filter d =
     (if u_role current_user \<notin> {CASHIER, BRANCH_ADMIN, SUPER_USER} then []
      else
        let query =
          (if u_role current_user = SUPER_USER then
             filter (\<lambda>r. is_waiter_order (engine d) r \<and> cleared_from_waiter_requests r = Some False)
                    (orders d)
           else if u_role current_user = CASHIER then
             filter (\<lambda>r. assigned_cashier_id r = Some (u_id current_user) \<and> is_waiter_order (engine d) r
                          \<and> cleared_from_waiter_requests r = Some False) (orders d)
           else
             filter (\<lambda>r. Some (branch_id r) = u_branch_id current_user \<and> is_waiter_order (engine d) r
                          \<and> cleared_from_waiter_requests r = Some False) (orders d))
        in if status_filter = ''paid'' then filter (\<lambda>r. status r = PAID) query
           else if status_filter = ''all'' then query
           else filter (\<lambda>r. status r = PENDING) query)"

section \<open>Editing an order (pos/views.py, save\_order\_changes)\<close>

text \<open>
  Exceptions are values: a handler's \<^verbatim>\<open>try\<close> body returns \<open>Inl e\<close> where the Python
  raises \<open>e\<close>. \<open>KeyError k\<close> is the subscript \<^verbatim>\<open>item_data[k]\<close> on a dictionary without
  the key \<open>k\<close> (a JSON \<^verbatim>\<open>null\<close> there ends in an exception as well, at the arithmetic or
  at the commit); \<open>IntegrityError\<close> is a commit that a constraint of \<^verbatim>\<open>models.py\<close> refuses;
  \<open>ValueError\<close> is an enum constructor given a text that names none of its values.
\<close>

datatype exn = KeyError string | IntegrityError string | ValueError string

definition str_exn :: "exn \<Rightarrow> string" where
  "str_exn e = (case e of KeyError k \<Rightarrow> [CHR 0x27] @ k @ [CHR 0x27]
                 | IntegrityError m \<Rightarrow> m | ValueError m \<Rightarrow> m)"



text \<open>\<^verbatim>\<open>f"{x:.2f}"\<close> for an amount held in hundredths, and \<^verbatim>\<open>', '.join(...)\<close>.\<close>

definition fmt_money :: "int \<Rightarrow> string" where
  "fmt_money c =
     (if c < 0 then ''-'' else []) @ str_nat (nat \<bar>c\<bar> div 100) @ ''.''
       @ [''0123456789'' ! (nat \<bar>c\<bar> mod 100 div 10), ''0123456789'' ! (nat \<bar>c\<bar> mod 10)]"

fun join_comma :: "string list \<Rightarrow> string" where
  "join_comma [] = []"
| "join_comma [x] = x"
| "join_comma (x # y # ys) = x @ '', '' @ join_comma (y # ys)"






definition next_id :: "nat list \<Rightarrow> nat" where
  "next_id ids = Suc (fold max ids 0)"





record edit_response =
  e_success :: bool
  e_message :: string
  e_new_total :: "int option"

definition edit_fail :: "string \<Rightarrow> edit_response" where
  "edit_fail msg = \<lparr>e_success = False, e_message = msg, e_new_total = None\<rparr>"









section \<open>PIN codes (models.py CashierPin, AdminPinCode; cashier/views.py; admin/views.py)\<close>

text \<open>
  \<^verbatim>\<open>werkzeug.security\<close> is a library, not code of this repository. Its key derivation is
  the parameter \<open>kdf\<close> (method, salt, password to digest) and the random salt is an argument;
  the stored text has werkzeug's layout \<^verbatim>\<open>method$salt$digest\<close>, and a text with fewer than
  two \<^verbatim>\<open>$\<close> never verifies.
\<close>

type_synonym kdf = "string \<Rightarrow> string \<Rightarrow> string \<Rightarrow> string"

definition DEFAULT_METHOD :: string where
  "DEFAULT_METHOD = ''scrypt:32768:8:1''"

definition generate_password_hash :: "kdf \<Rightarrow> string \<Rightarrow> string \<Rightarrow> string" where
  "generate_password_hash kdf salt password =
     DEFAULT_METHOD @ ''$'' @ salt @ ''$'' @ kdf DEFAULT_METHOD salt password"

definition split_dollar :: "string \<Rightarrow> string \<times> string" where
  "split_dollar s = (takeWhile (\<lambda>c. c \<noteq> CHR ''$'') s, drop 1 (dropWhile (\<lambda>c. c \<noteq> CHR ''$'') s))"

definition check_password_hash :: "kdf \<Rightarrow> string \<Rightarrow> string \<Rightarrow> bool" where
  "check_password_hash kdf pwhash password =
     (if length (filter (\<lambda>c. c = CHR ''$'') pwhash) < 2 then False
      else let (method, rest) = split_dollar pwhash;
               (salt, hashval) = split_dollar rest
           in kdf method salt password = hashval)"

record CashierPin =
  cp_cashier_id :: nat
  cp_branch_id :: nat
  cp_pin_code_hash :: string
  cp_is_active :: bool

definition CashierPin_set_pin :: "kdf \<Rightarrow> string \<Rightarrow> string \<Rightarrow> CashierPin \<Rightarrow> CashierPin" where
  "CashierPin_set_pin kdf salt pin_code r = r\<lparr>cp_pin_code_hash := generate_password_hash kdf salt pin_code\<rparr>"

definition CashierPin_check_pin :: "kdf \<Rightarrow> CashierPin \<Rightarrow> string \<Rightarrow> bool" where
  "CashierPin_check_pin kdf r pin_code = check_password_hash kdf (cp_pin_code_hash r) pin_code"

definition verify_cashier_pin :: "kdf \<Rightarrow> CashierPin list \<Rightarrow> nat \<Rightarrow> nat \<Rightarrow> string \<Rightarrow> bool" where
  "verify_cashier_pin kdf pins cashier branch pin_code =
     (case find (\<lambda>r. cp_cashier_id r = cashier \<and> cp_branch_id r = branch \<and> cp_is_active r) pins of
        Some pin_record \<Rightarrow> CashierPin_check_pin kdf pin_record pin_code
      | None \<Rightarrow> False)"

text \<open>\<^verbatim>\<open>len(pin) == 4 and pin.isdigit()\<close>, on ASCII text.\<close>

definition is_four_digits :: "string \<Rightarrow> bool" where
  "is_four_digits p = (length p = 4 \<and> list_all (\<lambda>c. c \<in> set ''0123456789'') p)"

text \<open>
  \<^verbatim>\<open>cashier/views.py set_pin\<close>, after \<^verbatim>\<open>.strip()\<close> of both inputs: the PIN table is the only
  state it touches. The route's decorator lets cashiers in and aborts with 403 for any other
  role. The row of the cashier and branch is updated whether active or not.
\<close>

definition set_pin :: "kdf \<Rightarrow> string \<Rightarrow> User \<Rightarrow> string \<Rightarrow> string \<Rightarrow> CashierPin list \<Rightarrow> response \<times> CashierPin list" where
  "set_pin kdf salt current_user new_pin confirm_pin pins =
     (if u_role current_user \<noteq> CASHIER then (fail_response 403 ''Forbidden'', pins)
      else if \<not> is_four_digits new_pin then (fail_response 200 ''PIN must be exactly 4 digits'', pins)
      else if new_pin \<noteq> confirm_pin then (fail_response 200 ''PIN confirmation does not match'', pins)
      else case u_branch_id current_user of
        None \<Rightarrow> (fail_response 200 ''Error setting PIN: IntegrityError'', pins)
      | Some branch \<Rightarrow>
          (case find (\<lambda>r. cp_cashier_id r = u_id current_user \<and> cp_branch_id r = branch) pins of
             Some cashier_pin \<Rightarrow>
               (ok_response ''PIN updated successfully'',
                map (\<lambda>r. if cp_cashier_id r = u_id current_user \<and> cp_branch_id r = branch
                         then (CashierPin_set_pin kdf salt new_pin r)\<lparr>cp_is_active := True\<rparr> else r) pins)
           | None \<Rightarrow>
               (ok_response ''PIN created successfully'',
                pins @ [CashierPin_set_pin kdf salt new_pin
                          \<lparr>cp_cashier_id = u_id current_user, cp_branch_id = branch,
                           cp_pin_code_hash = [], cp_is_active = True\<rparr>])))"

record AdminPinCode =
  ap_admin_id :: "nat option"
  ap_branch_id :: nat
  ap_pin_code_hash :: string
  ap_pin_type :: string
  ap_is_active :: bool
  ap_pin_code :: "string option"

definition AdminPinCode_set_pin :: "kdf \<Rightarrow> string \<Rightarrow> string \<Rightarrow> AdminPinCode \<Rightarrow> AdminPinCode" where
  "AdminPinCode_set_pin kdf salt pin_code r =
     r\<lparr>ap_pin_code_hash := generate_password_hash kdf salt pin_code, ap_pin_code := Some pin_code\<rparr>"

definition AdminPinCode_check_pin :: "kdf \<Rightarrow> AdminPinCode \<Rightarrow> string \<Rightarrow> bool" where
  "AdminPinCode_check_pin kdf r pin_code =
     (if ap_pin_code_hash r \<noteq> [] then check_password_hash kdf (ap_pin_code_hash r) pin_code
      else if ap_pin_code r \<noteq> None \<and> ap_pin_code r \<noteq> Some [] then ap_pin_code r = Some pin_code
      else False)"

definition verify_pin :: "kdf \<Rightarrow> AdminPinCode list \<Rightarrow> nat \<Rightarrow> string \<Rightarrow> bool" where
  "verify_pin kdf pins branch pin_code =
     (case find (\<lambda>r. ap_branch_id r = branch \<and> ap_is_active r) pins of
        Some pin_record \<Rightarrow> AdminPinCode_check_pin kdf pin_record pin_code
      | None \<Rightarrow> False)"

text \<open>\<^verbatim>\<open>pos/views.py verify_admin_pin_for_editing\<close>: the boolean \<^verbatim>\<open>success\<close> of its answer.\<close>

definition verify_admin_pin_for_editing :: "kdf \<Rightarrow> User \<Rightarrow> string \<Rightarrow> AdminPinCode list \<Rightarrow> bool" where
  "verify_admin_pin_for_editing kdf current_user pin_code pins =
     (if u_role current_user \<noteq> CASHIER then False
      else if pin_code = [] \<or> length pin_code \<noteq> 4 then False
      else case find (\<lambda>r. Some (ap_branch_id r) = u_branch_id current_user
                            \<and> ap_pin_type r = ''order_editing'' \<and> ap_is_active r) pins of
        None \<Rightarrow> False
      | Some admin_pin \<Rightarrow> AdminPinCode_check_pin kdf admin_pin pin_code)"

section \<open>The daily session and its report (models.py CashierSession; pos/views.py)\<close>

text \<open>
  A query's \<^verbatim>\<open>.first()\<close> row is the first row of the table that passes the filter; a
  change made to that object is written back to that row.
\<close>

fun update_first :: "('a \<Rightarrow> bool) \<Rightarrow> ('a \<Rightarrow> 'a) \<Rightarrow> 'a list \<Rightarrow> 'a list" where
  "update_first P f [] = []"
| "update_first P f (x # xs) = (if P x then f x # xs else x # update_first P f xs)"

definition todays_session :: "nat \<Rightarrow> nat \<Rightarrow> CashierSession \<Rightarrow> bool" where
  "todays_session cashier today s =
     (s_cashier_id s = cashier \<and> s_login_date s = today \<and> s_is_active s)"

text \<open>
  \<^verbatim>\<open>CashierSession.get_or_create_today_session\<close>: the session and the database after the
  call (a created session is committed at once). The day in the session id is written as
  its number.
\<close>

definition get_or_create_today_session :: "nat \<Rightarrow> datetime \<Rightarrow> db \<Rightarrow> CashierSession \<times> db" where
  "get_or_create_today_session cashier now d =
     (let today = date_of now in
      case find (todays_session cashier today) (cashier_sessions d) of
        Some session \<Rightarrow> (session, d)
      | None \<Rightarrow>
          let initial_count =
                int (length (filter (\<lambda>r. cashier_id r = Some cashier
                        \<and> (case created_at r of None \<Rightarrow> False | Some t \<Rightarrow> date_of t = today))
                      (orders d)));
              session =
                \<lparr>s_session_id = ''cashier_'' @ str_nat cashier @ ''_'' @ str_nat today,
                 s_login_date = today, s_initial_order_count = initial_count,
                 s_current_order_count = initial_count, s_daily_report_printed = False,
                 s_report_printed_at = None, s_last_activity = Some now, s_is_active = True,
                 s_branch_id = (case get_user d cashier of
                                  None \<Rightarrow> 0
                                | Some u \<Rightarrow> (case u_branch_id u of None \<Rightarrow> 0 | Some b \<Rightarrow> b)),
                 s_cashier_id = cashier\<rparr>
          in (session, d\<lparr>cashier_sessions := cashier_sessions d @ [session]\<rparr>))"

definition mark_report_printed :: "datetime \<Rightarrow> CashierSession \<Rightarrow> CashierSession" where
  "mark_report_printed now s =
     s\<lparr>s_daily_report_printed := True, s_report_printed_at := Some now, s_last_activity := Some now\<rparr>"

text \<open>
  What both endpoints do to the session before marking it: a session without a branch
  (\<open>0\<close>) takes the caller's; when the caller has none either, the commit is refused
  (\<open>branch_id\<close> is not nullable) and the endpoint's \<^verbatim>\<open>except\<close> takes over.
\<close>

definition ensure_branch :: "User \<Rightarrow> CashierSession \<Rightarrow> CashierSession option" where
  "ensure_branch current_user s =
     (if s_branch_id s = 0
      then (case u_branch_id current_user of None \<Rightarrow> None | Some b \<Rightarrow> Some (s\<lparr>s_branch_id := b\<rparr>))
      else Some s)"

text \<open>\<^verbatim>\<open>mark_daily_report_printed\<close>: the audit entry is written only when the session was not marked before.\<close>

definition mark_daily_report_printed :: "User \<Rightarrow> datetime \<Rightarrow> db \<Rightarrow> bool \<times> db" where
  "mark_daily_report_printed current_user now d =
     (if u_role current_user \<noteq> CASHIER then (False, d)
      else
        let (session, d1) = get_or_create_today_session (u_id current_user) now d;
            was_already_printed = s_daily_report_printed session
        in case ensure_branch current_user session of
             None \<Rightarrow> (False, d1)
           | Some _ \<Rightarrow>
               (True,
                d1\<lparr>cashier_sessions :=
                     update_first (todays_session (u_id current_user) (date_of now))
                       (\<lambda>s. mark_report_printed now (the (ensure_branch current_user s)))
                       (cashier_sessions d1),
                   audit_logs :=
                     (if \<not> was_already_printed
                      then audit_logs d1 @
                        [\<lparr>a_user_id = u_id current_user, a_action = ''DAILY_REPORT_MARKED'',
                          a_description = ''Cashier '' @ get_full_name current_user
                            @ '' manually marked daily report as printed for '' @ str_nat (date_of now)\<rparr>]
                      else audit_logs d1)\<rparr>))"

text \<open>
  \<^verbatim>\<open>daily_report\<close>, as far as it touches the database (the PDF itself is left out): the
  result tells whether a report was produced. An exception in the marking block is only
  printed; the report is still returned.
\<close>

definition daily_report :: "User \<Rightarrow> datetime \<Rightarrow> db \<Rightarrow> bool \<times> db" where
  "daily_report current_user now d =
     (if u_role current_user \<noteq> CASHIER then (False, d)
      else if 0 < count_unpaid_waiter_orders d (u_id current_user) then (False, d)
      else
        let (session, d1) = get_or_create_today_session (u_id current_user) now d
        in case ensure_branch current_user session of
             None \<Rightarrow> (True, d1)
           | Some _ \<Rightarrow>
               (True,
                d1\<lparr>cashier_sessions :=
                     update_first (todays_session (u_id current_user) (date_of now))
                       (\<lambda>s. mark_report_printed now (the (ensure_branch current_user s)))
                       (cashier_sessions d1),
                   audit_logs := audit_logs d1 @
                        [\<lparr>a_user_id = u_id current_user, a_action = ''DAILY_REPORT_GENERATED'',
                          a_description = ''Cashier '' @ get_full_name current_user
                            @ '' printed daily report for '' @ str_nat (date_of now)\<rparr>]\<rparr>))"

text \<open>Today's active session of a cashier, as the endpoints find it.\<close>

definition session_of :: "db \<Rightarrow> nat \<Rightarrow> datetime \<Rightarrow> CashierSession option" where
  "session_of d cashier now = find (todays_session cashier (date_of now)) (cashier_sessions d)"

section \<open>Creating an order (pos/views.py, create\_order; models.py OrderCounter, WaiterCashierAssignment)\<close>

text \<open>The JSON of the request. \<^verbatim>\<open>id\<close> of a line is a menu id, a text, or absent.\<close>

datatype item_ref = MenuRef nat | NameRef string | NoRef

record modifier =
  md_quantity :: int
  md_name :: string

record item_data =
  it_id :: item_ref
  it_isCustomPrice :: bool
  it_price :: int
  it_quantity :: "int option"
  it_name :: string
  it_modifiers :: "modifier list"

record create_request =
  rq_table_id :: "nat option"
  rq_items :: "item_data list"
  rq_service_type :: "string option"
  rq_is_adding_items :: bool
  rq_existing_order_id :: "nat option"
  rq_notes :: "string option"
  rq_assigned_cashier_id :: "nat option"

record create_response =
  cr_success :: bool
  cr_http_status :: nat
  cr_message :: string
  cr_error_type :: "string option"
  cr_order_id :: "nat option"
  cr_order_number :: "string option"
  cr_is_update :: "bool option"

definition create_fail :: "nat \<Rightarrow> string \<Rightarrow> create_response" where
  "create_fail code msg =
     \<lparr>cr_success = False, cr_http_status = code, cr_message = msg, cr_error_type = None,
      cr_order_id = None, cr_order_number = None, cr_is_update = None\<rparr>"

text \<open>
  A step of the handler's \<^verbatim>\<open>try\<close> body either raises, returns a response early, or goes on
  with a value.
\<close>

datatype 'a outcome = Raise exn | Return create_response | Continue 'a

definition modifiers_text :: "modifier list \<Rightarrow> string" where
  "modifiers_text ms =
     join_comma (map (\<lambda>m. if 1 < md_quantity m then str_nat (nat (md_quantity m)) @ ''x '' @ md_name m
                           else md_name m) ms)"

definition menu_item_by_name :: "db \<Rightarrow> string \<Rightarrow> MenuItem option" where
  "menu_item_by_name d n = find (\<lambda>m. m_name m = n) (menu_items d)"

definition menu_item_by_id :: "db \<Rightarrow> nat \<Rightarrow> MenuItem option" where
  "menu_item_by_id d i = find (\<lambda>m. m_id m = i) (menu_items d)"

definition new_order_item :: "nat \<Rightarrow> int \<Rightarrow> int \<Rightarrow> int \<Rightarrow> string option \<Rightarrow> OrderItem" where
  "new_order_item menu_item quantity unit_price item_total item_notes =
     \<lparr>oi_id = 0, oi_order_id = 0, oi_menu_item_id = menu_item, oi_quantity = quantity,
      oi_unit_price = unit_price, oi_total_price = item_total, oi_notes = item_notes,
      oi_special_requests = None, oi_is_new = False, oi_is_deleted = False\<rparr>"

text \<open>One line of the request: its amount and the row to insert (keys assigned at the commit).\<close>

definition build_item :: "db \<Rightarrow> item_data \<Rightarrow> (int \<times> OrderItem) outcome" where
  "build_item d item_data =
     (if it_id item_data \<in> {NameRef ''falafel_hab_custom'', NameRef ''special_order_custom''}
         \<or> it_isCustomPrice item_data
      then
        (case it_quantity item_data of
           None \<Rightarrow> Raise (KeyError ''quantity'')
         | Some quantity \<Rightarrow>
             let custom_price = it_price item_data;
                 item_total = custom_price * quantity;
                 custom_price_note = ''Custom Price: '' @ fmt_money custom_price @ '' QAR'';
                 notes = (if it_modifiers item_data \<noteq> []
                          then custom_price_note @ '', '' @ modifiers_text (it_modifiers item_data)
                          else custom_price_note)
             in if it_name item_data = ''Falafel Hab'' then
                  (case menu_item_by_name d ''Falafel Hab'' of
                     None \<Rightarrow> Return (create_fail 400 ''Falafel Hab item not found in menu'')
                   | Some menu_item \<Rightarrow>
                       Continue (item_total,
                         new_order_item (m_id menu_item) quantity custom_price item_total (Some notes)))
                else if it_name item_data = ''special order'' then
                  (case menu_item_by_name d ''special order'' of
                     None \<Rightarrow> Return (create_fail 400 ''Special order item not found in menu'')
                   | Some menu_item \<Rightarrow>
                       Continue (item_total,
                         new_order_item (m_id menu_item) quantity custom_price item_total (Some notes)))
                else Return (create_fail 400 (''Unknown custom price item: '' @ it_name item_data)))
      else
        (case it_id item_data of
           NoRef \<Rightarrow> Raise (KeyError ''id'')
         | NameRef n \<Rightarrow> Return (create_fail 400 (''Item not found: '' @ n))
         | MenuRef i \<Rightarrow>
             (case menu_item_by_id d i of
                None \<Rightarrow> Return (create_fail 400 (''Item not found: '' @ str_nat i))
              | Some menu_item \<Rightarrow>
                  (case it_quantity item_data of
                     None \<Rightarrow> Raise (KeyError ''quantity'')
                   | Some quantity \<Rightarrow>
                       Continue (m_price menu_item * quantity,
                         new_order_item (m_id menu_item) quantity (m_price menu_item)
                           (m_price menu_item * quantity)
                           (if it_modifiers item_data \<noteq> []
                               \<and> modifiers_text (it_modifiers item_data) \<noteq> []
                            then Some (modifiers_text (it_modifiers item_data)) else None))))))"

fun build_items :: "db \<Rightarrow> item_data list \<Rightarrow> (int \<times> OrderItem list) outcome" where
  "build_items d [] = Continue (0, [])"
| "build_items d (item_data # rest) =
     (case build_item d item_data of
        Raise e \<Rightarrow> Raise e
      | Return r \<Rightarrow> Return r
      | Continue (item_total, order_item) \<Rightarrow>
          (case build_items d rest of
             Raise e \<Rightarrow> Raise e
           | Return r \<Rightarrow> Return r
           | Continue (amount, lines) \<Rightarrow>
               Continue (item_total + amount, order_item # lines)))"

text \<open>\<^verbatim>\<open>.order_by(Order.created_at.desc()).first()\<close>: a row with the latest \<open>created_at\<close>.\<close>

fun latest_created :: "Order list \<Rightarrow> Order option" where
  "latest_created [] = None"
| "latest_created (r # rs) =
     (case latest_created rs of
        None \<Rightarrow> Some r
      | Some r' \<Rightarrow> (if (case created_at r' of None \<Rightarrow> 0 | Some t \<Rightarrow> Suc t)
                         > (case created_at r of None \<Rightarrow> 0 | Some t \<Rightarrow> Suc t)
                      then Some r' else Some r))"

definition find_existing_order :: "User \<Rightarrow> create_request \<Rightarrow> db \<Rightarrow> Order option" where
  "find_existing_order current_user rq d =
     (if rq_existing_order_id rq \<noteq> None \<and> rq_existing_order_id rq \<noteq> Some 0 then
        find (\<lambda>r. Some (o_id r) = rq_existing_order_id rq
                   \<and> Some (branch_id r) = u_branch_id current_user \<and> status r = PENDING) (orders d)
      else if rq_table_id rq \<noteq> None \<and> rq_table_id rq \<noteq> Some 0 then
        latest_created
          (filter (\<lambda>r. table_id r = rq_table_id rq
                        \<and> Some (branch_id r) = u_branch_id current_user \<and> status r = PENDING) (orders d))
      else None)"

text \<open>
  The first part of the handler, up to the order number: the checks on the request and
  the item loop. It only reads the database.
\<close>

definition prepare_order ::
  "User \<Rightarrow> create_request \<Rightarrow> db \<Rightarrow> (Order option \<times> int \<times> OrderItem list) outcome" where
  "prepare_order current_user rq d =
     (if rq_items rq = [] then Return (create_fail 400 ''No items in order'')
      else if rq_is_adding_items rq \<and> find_existing_order current_user rq d = None
      then Return (create_fail 400 ''No existing order found to update'')
      else case build_items d (rq_items rq) of
        Raise e \<Rightarrow> Raise e
      | Return r \<Rightarrow> Return r
      | Continue (amount, lines) \<Rightarrow>
          Continue (if rq_is_adding_items rq then find_existing_order current_user rq d else None,
                    amount, lines))"

text \<open>
  \<^verbatim>\<open>WaiterCashierAssignment.get_assignment_for_waiter\<close>, and the handler's test
  \<^verbatim>\<open>assignment and assignment.assigned_cashier\<close>: the assignment row of the waiter in the
  branch whose cashier is a row of \<^verbatim>\<open>users\<close>.
\<close>

definition get_assignment_for_waiter :: "db \<Rightarrow> nat \<Rightarrow> nat option \<Rightarrow> WaiterCashierAssignment option" where
  "get_assignment_for_waiter d waiter branch =
     find (\<lambda>a. w_waiter_id a = waiter \<and> Some (w_branch_id a) = branch) (waiter_cashier_assignments d)"

definition assigned_cashier_of :: "db \<Rightarrow> User \<Rightarrow> User option" where
  "assigned_cashier_of d current_user =
     (case get_assignment_for_waiter d (u_id current_user) (u_branch_id current_user) of
        None \<Rightarrow> None
      | Some assignment \<Rightarrow> get_user d (w_assigned_cashier_id assignment))"

definition waiter_note :: "User \<Rightarrow> User \<Rightarrow> string" where
  "waiter_note current_user assigned_cashier =
     ''[WAITER ORDER] Created by: '' @ get_full_name current_user @ '' | Assigned to: ''
       @ get_full_name assigned_cashier @ '' (Admin Assigned)''"

definition no_cashier_assignment_response :: create_response where
  "no_cashier_assignment_response =
     \<lparr>cr_success = False, cr_http_status = 200,
      cr_message = ''Cannot create order. Please ask an admin to assign you to a cashier using their PIN code.'',
      cr_error_type = Some ''no_cashier_assignment'',
      cr_order_id = None, cr_order_number = None, cr_is_update = None\<rparr>"

text \<open>\<^verbatim>\<open>ServiceType(service_type) if service_type else ServiceType.ON_TABLE\<close>.\<close>

definition parse_service_type :: "string option \<Rightarrow> exn + ServiceType" where
  "parse_service_type s =
     (if s = None \<or> s = Some [] then Inr ON_TABLE
      else if s = Some ''on_table'' then Inr ON_TABLE
      else if s = Some ''take_away'' then Inr TAKE_AWAY
      else if s = Some ''delivery'' then Inr DELIVERY
      else if s = Some ''card'' then Inr ST_CARD
      else Inl (ValueError (the s @ '' is not a valid ServiceType'')))"

text \<open>\<^verbatim>\<open>OrderCounter.get_next_counter\<close>: the number handed out and the table after the flush.\<close>

definition get_next_counter :: "nat \<Rightarrow> datetime \<Rightarrow> OrderCounter list \<Rightarrow> int \<times> OrderCounter list" where
  "get_next_counter branch now counters =
     (case find (\<lambda>c. c_branch_id c = branch) counters of
        None \<Rightarrow>
          (1, counters @ [\<lparr>c_branch_id = branch, c_current_counter = 1,
                            c_last_reset_date = None, c_updated_at = Some now\<rparr>])
      | Some counter_record \<Rightarrow>
          (c_current_counter counter_record + 1,
           update_first (\<lambda>c. c_branch_id c = branch)
             (\<lambda>c. c\<lparr>c_current_counter := c_current_counter c + 1, c_updated_at := Some now\<rparr>)
             counters))"

text \<open>The rows of a new order's lines: keys in sequence, all pointing at the order.\<close>

fun number_items :: "nat \<Rightarrow> nat \<Rightarrow> OrderItem list \<Rightarrow> OrderItem list" where
  "number_items first order [] = []"
| "number_items first order (x # xs) =
     x\<lparr>oi_id := first, oi_order_id := order\<rparr> # number_items (Suc first) order xs"

definition append_items :: "nat \<Rightarrow> OrderItem list \<Rightarrow> db \<Rightarrow> db" where
  "append_items order new_items d =
     d\<lparr>order_items := order_items d
          @ number_items (next_id (map oi_id (order_items d))) order new_items\<rparr>"

text \<open>
  The session bookkeeping after the commit, for cashiers only (its own \<^verbatim>\<open>try\<close>; it cannot
  undo the order).
\<close>

definition track_cashier_session :: "User \<Rightarrow> datetime \<Rightarrow> db \<Rightarrow> db" where
  "track_cashier_session current_user now d =
     (if u_role current_user \<noteq> CASHIER then d
      else
        let (session, d1) = get_or_create_today_session (u_id current_user) now d;
            today_order_count =
              int (length (filter (\<lambda>r. cashier_id r = Some (u_id current_user)
                     \<and> (case created_at r of None \<Rightarrow> False | Some t \<Rightarrow> date_of t = date_of now))
                   (orders d1)))
        in d1\<lparr>cashier_sessions :=
                update_first (todays_session (u_id current_user) (date_of now))
                  (\<lambda>s. s\<lparr>s_current_order_count := today_order_count, s_last_activity := Some now\<rparr>)
                  (cashier_sessions d1)\<rparr>)"

text \<open>
  Adding the lines to an existing pending order. \<open>stamp\<close> is the formatted local time of
  the note.
\<close>

definition update_existing_order ::
  "User \<Rightarrow> Order \<Rightarrow> int \<Rightarrow> OrderItem list \<Rightarrow> string \<Rightarrow> db \<Rightarrow> create_response \<times> db" where
  "update_existing_order current_user order amount new_items stamp d =
     (let d1 = append_items (o_id order) new_items d;
          notes1 = (case o_notes order of None \<Rightarrow> [] | Some n \<Rightarrow> n)
                   @ CHR 0x0A # ''[ITEMS ADDED] by '' @ get_full_name current_user @ '' at '' @ stamp;
          original_count =
            int (length (filter (\<lambda>x. oi_order_id x = o_id order) (order_items d1)))
              - int (length new_items);
          notes2 = (if \<not> like_contains ''[ORIGINAL_ITEMS_COUNT]'' notes1
                    then notes1 @ CHR 0x0A # ''[ORIGINAL_ITEMS_COUNT:''
                           @ (if original_count < 0 then ''-'' else [])
                           @ str_nat (nat \<bar>original_count\<bar>) @ '']''
                    else notes1)
      in (\<lparr>cr_success = True, cr_http_status = 200, cr_message = ''Order updated successfully'',
           cr_error_type = None, cr_order_id = Some (o_id order),
           cr_order_number = Some (order_number order), cr_is_update = Some True\<rparr>,
          put_order (order\<lparr>total_amount := total_amount order + amount,
                           o_notes := Some notes2\<rparr>) d1))"

text \<open>
  Inserting a new order. \<open>branch_id\<close> is not nullable and \<open>table_id\<close> is a foreign key, so
  a caller without a branch or a table that does not exist makes the commit fail.
\<close>

definition insert_new_order ::
  "User \<Rightarrow> create_request \<Rightarrow> string \<Rightarrow> string option \<Rightarrow> nat option \<Rightarrow> OrderStatus \<Rightarrow> ServiceType
     \<Rightarrow> int \<Rightarrow> OrderItem list \<Rightarrow> datetime \<Rightarrow> db \<Rightarrow> exn + (create_response \<times> db)" where
  "insert_new_order current_user rq order_no order_notes assigned order_status service amount
                    new_items now d =
     (case u_branch_id current_user of
        None \<Rightarrow> Inl (IntegrityError ''null value in column branch_id'')
      | Some branch \<Rightarrow>
          let (counter, counters') = get_next_counter branch now (order_counters d);
              new_id = next_id (map o_id (orders d));
              order =
                \<lparr>o_id = new_id, order_number = order_no, order_counter = Some counter,
                 total_amount = amount, payment_method = None, service_type = Some service,
                 status = order_status, o_notes = order_notes, created_at = Some now,
                 paid_at = (if order_status = PAID then Some now else None),
                 cleared_from_waiter_requests = Some False, last_edited_at = None,
                 last_edited_by = None, edit_count = Some 0, branch_id = branch,
                 cashier_id = Some (u_id current_user), assigned_cashier_id = assigned,
                 table_id = rq_table_id rq\<rparr>
          in if rq_table_id rq \<noteq> None \<and> the (rq_table_id rq) \<notin> set (map t_id (tables d))
             then Inl (IntegrityError ''foreign key violation: orders.table_id'')
             else
               Inr (\<lparr>cr_success = True, cr_http_status = 200,
                      cr_message = ''Order created successfully'', cr_error_type = None,
                      cr_order_id = Some new_id, cr_order_number = Some order_no,
                      cr_is_update = Some False\<rparr>,
                    append_items new_id new_items
                      (d\<lparr>orders := orders d @ [order], order_counters := counters'\<rparr>)))"

text \<open>
  The handler. \<open>order_no\<close> is the value of \<^verbatim>\<open>generate_order_number()\<close> (date and four
  random characters). Any exception rolls the transaction back and answers 500.
\<close>

definition create_order ::
  "User \<Rightarrow> create_request \<Rightarrow> string \<Rightarrow> string \<Rightarrow> datetime \<Rightarrow> db \<Rightarrow> create_response \<times> db" where
  "create_order current_user rq order_no stamp now d =
     (case prepare_order current_user rq d of
        Raise e \<Rightarrow> (create_fail 500 (str_exn e), d)
      | Return r \<Rightarrow> (r, d)
      | Continue (existing_order, amount, new_items) \<Rightarrow>
          if u_role current_user = WAITER \<and> assigned_cashier_of d current_user = None
          then (no_cashier_assignment_response, d)
          else
            let order_notes =
                  (if u_role current_user = WAITER
                   then Some (if rq_notes rq \<noteq> None \<and> rq_notes rq \<noteq> Some []
                              then waiter_note current_user (the (assigned_cashier_of d current_user))
                                     @ CHR 0x0A # the (rq_notes rq)
                              else waiter_note current_user (the (assigned_cashier_of d current_user)))
                   else rq_notes rq);
                assigned =
                  (if u_role current_user = WAITER
                   then map_option w_assigned_cashier_id
                          (get_assignment_for_waiter d (u_id current_user) (u_branch_id current_user))
                   else rq_assigned_cashier_id rq);
                order_status = (if u_role current_user = WAITER then PENDING else PAID)
            in case parse_service_type (rq_service_type rq) of
                 Inl e \<Rightarrow> (create_fail 500 (str_exn e), d)
               | Inr service \<Rightarrow>
                   (case existing_order of
                      Some order \<Rightarrow>
                        (let (r, d1) = update_existing_order current_user order amount
                                         new_items stamp d
                         in (r, track_cashier_session current_user now d1))
                    | None \<Rightarrow>
                        (case insert_new_order current_user rq order_no order_notes assigned
                                order_status service amount new_items now d of
                           Inl e \<Rightarrow> (create_fail 500 (str_exn e), d)
                         | Inr (r, d1) \<Rightarrow> (r, track_cashier_session current_user now d1))))"

section \<open>Example data\<close>

definition paid_cashier_order :: "nat \<Rightarrow> datetime \<Rightarrow> Order" where
  "paid_cashier_order i t =
     \<lparr>o_id = i, order_number = ''ORD19700102AAAA'', order_counter = Some (int i), total_amount = 2500,
      payment_method = None, service_type = Some ON_TABLE, status = PAID, o_notes = Some [],
      created_at = Some t, paid_at = Some t, cleared_from_waiter_requests = Some False,
      last_edited_at = None, last_edited_by = None, edit_count = Some 0, branch_id = 1,
      cashier_id = Some 7, assigned_cashier_id = None, table_id = None\<rparr>"

definition pending_waiter_order :: "nat \<Rightarrow> datetime \<Rightarrow> Order" where
  "pending_waiter_order i t =
     \<lparr>o_id = i, order_number = ''ORD19700101BBBB'', order_counter = Some (int i), total_amount = 1800,
      payment_method = None, service_type = Some ON_TABLE, status = PENDING,
      o_notes = Some ''[WAITER ORDER] Created by: Wes Ray | Assigned to: Ann Lee (Admin Assigned)'',
      created_at = Some t, paid_at = None, cleared_from_waiter_requests = Some False,
      last_edited_at = None, last_edited_by = None, edit_count = Some 0, branch_id = 1,
      cashier_id = Some 9, assigned_cashier_id = Some 7, table_id = Some 4\<rparr>"

definition cancelled_order :: Order where
  "cancelled_order =
     \<lparr>o_id = 1, order_number = ''ORD20240101AB12'', order_counter = Some 1, total_amount = 2500,
      payment_method = None, service_type = Some ON_TABLE, status = CANCELLED, o_notes = None,
      created_at = Some 1000, paid_at = None, cleared_from_waiter_requests = Some False,
      last_edited_at = None, last_edited_by = None, edit_count = Some 0, branch_id = 1,
      cashier_id = Some 7, assigned_cashier_id = None, table_id = None\<rparr>"

definition cashier7 :: User where
  "cashier7 = \<lparr>u_id = 7, u_first_name = ''Ann'', u_last_name = ''Lee'', u_role = CASHIER,
                u_branch_id = Some 1, u_is_active = True\<rparr>"

definition empty_db :: db where
  "empty_db = \<lparr>engine = PostgreSQL, users = [], orders = [], order_items = [], order_edit_history = [],
               audit_logs = [], cashier_sessions = [], order_counters = [],
               waiter_cashier_assignments = [], menu_items = [], tables = []\<rparr>"

definition db_report_needed :: db where
  "db_report_needed =
     empty_db\<lparr>orders := [paid_cashier_order 1 86500, paid_cashier_order 2 86600, paid_cashier_order 3 86700]\<rparr>"

definition db_unpaid_only :: db where
  "db_unpaid_only = empty_db\<lparr>orders := [pending_waiter_order 1 100, pending_waiter_order 2 200]\<rparr>"

definition cashier8 :: User where
  "cashier8 = \<lparr>u_id = 8, u_first_name = ''Bo'', u_last_name = ''Kim'', u_role = CASHIER,
                u_branch_id = Some 1, u_is_active = True\<rparr>"

definition paid_waiter_order :: "nat \<Rightarrow> datetime \<Rightarrow> Order" where
  "paid_waiter_order i t = (pending_waiter_order i t)\<lparr>status := PAID, paid_at := Some t\<rparr>"

definition db_transfer :: db where
  "db_transfer =
     empty_db\<lparr>users := [cashier7, cashier8],
              orders := [pending_waiter_order 1 100, pending_waiter_order 2 200, paid_waiter_order 3 300]\<rparr>"



definition falafel :: MenuItem where
  "falafel = \<lparr>m_id = 5, m_name = ''Falafel'', m_price = 1200\<rparr>"





definition toy_kdf :: kdf where
  "toy_kdf method salt password = rev (salt @ password)"

definition blank_admin_pin :: AdminPinCode where
  "blank_admin_pin = \<lparr>ap_admin_id = None, ap_branch_id = 1, ap_pin_code_hash = [],
                       ap_pin_type = ''order_editing'', ap_is_active = True, ap_pin_code = None\<rparr>"

definition session0 :: CashierSession where
  "session0 = \<lparr>s_session_id = ''cashier_7_1'', s_login_date = 1, s_initial_order_count = 0,
               s_current_order_count = 3, s_daily_report_printed = False,
               s_report_printed_at = None, s_last_activity = Some 86500, s_is_active = True,
               s_branch_id = 1, s_cashier_id = 7\<rparr>"

definition printed_session :: "datetime \<Rightarrow> CashierSession" where
  "printed_session t = session0\<lparr>s_daily_report_printed := True, s_report_printed_at := Some t\<rparr>"

definition db_reported_twice :: db where
  "db_reported_twice =
     empty_db\<lparr>orders := [paid_cashier_order 1 86500, paid_cashier_order 2 86600, paid_cashier_order 3 86700,
                         paid_cashier_order 4 86800, paid_cashier_order 5 86900],
              cashier_sessions := [printed_session 86550, printed_session 86650]\<rparr>"

definition db_all_reported :: db where
  "db_all_reported = db_report_needed\<lparr>cashier_sessions := [printed_session 86750]\<rparr>"

definition db_both_needed :: db where
  "db_both_needed =
     db_reported_twice\<lparr>orders := orders db_reported_twice @ [pending_waiter_order 6 200]\<rparr>"

definition waiter9 :: User where
  "waiter9 = \<lparr>u_id = 9, u_first_name = ''Wes'', u_last_name = ''Ray'', u_role = WAITER,
               u_branch_id = Some 1, u_is_active = True\<rparr>"

definition falafel_line :: item_data where
  "falafel_line = \<lparr>it_id = MenuRef 5, it_isCustomPrice = False, it_price = 0, it_quantity = Some 2,
                    it_name = ''Falafel'', it_modifiers = []\<rparr>"

definition table_request :: create_request where
  "table_request = \<lparr>rq_table_id = None, rq_items = [falafel_line], rq_service_type = Some ''on_table'',
                     rq_is_adding_items = False, rq_existing_order_id = None,
                     rq_notes = Some ''window seat'', rq_assigned_cashier_id = None\<rparr>"

definition db_menu :: db where
  "db_menu = empty_db\<lparr>users := [cashier7, waiter9], menu_items := [falafel],
                       order_counters := [\<lparr>c_branch_id = 1, c_current_counter = 5,
                                           c_last_reset_date = None, c_updated_at = None\<rparr>]\<rparr>"

definition db_assigned :: db where
  "db_assigned = db_menu\<lparr>waiter_cashier_assignments :=
                   [\<lparr>w_waiter_id = 9, w_branch_id = 1, w_assigned_cashier_id = 7,
                     w_assigned_by_cashier_id = Some 7\<rparr>]\<rparr>"

definition empty_request :: create_request where
  "empty_request = table_request\<lparr>rq_items := []\<rparr>"

section \<open>Theorems\<close>

subsection \<open>Pattern matching\<close>

lemma like_contains_iff:
  "like_contains pat s \<longleftrightarrow> (\<exists>ps ss. s = ps @ pat @ ss)"
proof (induction s)
  case Nil
  show ?case by auto
next
  case (Cons c cs)
  show ?case
  proof
    assume "like_contains pat (c # cs)"
    then consider "prefix pat (c # cs)" | "like_contains pat cs" by auto
    then show "\<exists>ps ss. c # cs = ps @ pat @ ss"
    proof cases
      case 1
      then obtain ss where "c # cs = pat @ ss" by (auto simp: prefix_def)
      then have "c # cs = [] @ pat @ ss" by simp
      then show ?thesis by blast
    next
      case 2
      then obtain ps ss where "cs = ps @ pat @ ss" using Cons.IH by blast
      then have "c # cs = (c # ps) @ pat @ ss" by simp
      then show ?thesis by blast
    qed
  next
    assume "\<exists>ps ss. c # cs = ps @ pat @ ss"
    then obtain ps ss where eq: "c # cs = ps @ pat @ ss" by blast
    show "like_contains pat (c # cs)"
    proof (cases ps)
      case Nil
      then have "prefix pat (c # cs)" using eq by (simp add: prefix_def)
      then show ?thesis by simp
    next
      case (Cons p ps')
      then have "cs = ps' @ pat @ ss" using eq by simp
      then have "like_contains pat cs" using Cons.IH by blast
      then show ?thesis by simp
    qed
  qed
qed

lemma is_waiter_order_iff:
  "is_waiter_order e r \<longleftrightarrow>
     (\<exists>n ps ss. o_notes r = Some n
        \<and> (case e of PostgreSQL \<Rightarrow> n = ps @ ''[WAITER ORDER]'' @ ss
                   | SQLite \<Rightarrow> map ascii_lower n = ps @ ''[waiter order]'' @ ss))"
proof -
  have low: "map ascii_lower WAITER_TAG = ''[waiter order]''"
    by (simp add: WAITER_TAG_def ascii_lower_def)
  show ?thesis
    by (cases "o_notes r"; cases e)
       (simp_all add: is_waiter_order_def sql_like_contains_def like_contains_iff low,
        simp_all add: WAITER_TAG_def)
qed

subsection \<open>Marking paid and the logout gate\<close>

lemma mark_order_paid_already_paid:
  assumes "get_order d i = Some order" and "status order = PAID"
  shows "\<not> success (fst (mark_order_paid cu i now d)) \<and> snd (mark_order_paid cu i now d) = d"
  using assms by (simp add: mark_order_paid_def fail_response_def)

lemmas example_defs = db_report_needed_def db_unpaid_only_def empty_db_def paid_cashier_order_def
  pending_waiter_order_def cashier7_def count_orders_after_report_def count_unpaid_waiter_orders_def
  unpaid_waiter_orders_query_def last_report_time_of_def report_times_def own_order_today_def
  is_waiter_order_def sql_like_contains_def WAITER_TAG_def date_of_def List.map_filter_simps

lemma fold_max_less:
  "fold max ts (t::nat) < x \<longleftrightarrow> t < x \<and> (\<forall>p\<in>set ts. p < x)"
  by (induction ts arbitrary: t) auto

lemma set_report_times:
  "set (report_times d c today) =
     {p. \<exists>s\<in>set (cashier_sessions d). s_cashier_id s = c \<and> s_login_date s = today
            \<and> s_daily_report_printed s \<and> s_report_printed_at s = Some p}"
proof -
  have g: "set (List.map_filter f xs) = {y. \<exists>x\<in>set xs. f x = Some y}"
    for f :: "CashierSession \<Rightarrow> datetime option" and xs
    by (induction xs) (auto simp: List.map_filter_simps split: option.splits)
  show ?thesis
    unfolding report_times_def g by (auto split: if_splits)
qed

lemma count_orders_after_report_eq:
  "count_orders_after_report d c today =
     length (filter (\<lambda>r. (cashier_id r = Some c \<or> assigned_cashier_id r = Some c)
                       \<and> (\<exists>t. created_at r = Some t \<and> t div 86400 = today
                              \<and> (\<forall>p\<in>set (report_times d c today). p < t)))
                    (orders d))"
proof (cases "report_times d c today")
  case Nil
  have "\<And>r. own_order_today c today r =
          ((cashier_id r = Some c \<or> assigned_cashier_id r = Some c)
             \<and> (\<exists>t. created_at r = Some t \<and> t div 86400 = today))"
    by (auto simp: own_order_today_def date_of_def split: option.splits)
  then have "filter (own_order_today c today) (orders d) =
          filter (\<lambda>r. (cashier_id r = Some c \<or> assigned_cashier_id r = Some c)
                       \<and> (\<exists>t. created_at r = Some t \<and> t div 86400 = today)) (orders d)"
    by (intro filter_cong) auto
  then show ?thesis using Nil
    by (simp add: count_orders_after_report_def last_report_time_of_def)
next
  case (Cons t ts)
  have "\<And>r. (own_order_today c today r
              \<and> (case created_at r of None \<Rightarrow> False | Some x \<Rightarrow> fold max ts t < x)) =
          ((cashier_id r = Some c \<or> assigned_cashier_id r = Some c)
             \<and> (\<exists>x. created_at r = Some x \<and> x div 86400 = today
                    \<and> (\<forall>p\<in>set (t # ts). p < x)))"
    by (auto simp: own_order_today_def date_of_def fold_max_less split: option.splits)
  then show ?thesis using Cons
    by (simp add: count_orders_after_report_def last_report_time_of_def)
qed

text \<open>
  C4 (amended). For a cashier, when the rules evaluate, the two counts of the answer are:
  the cashier's orders of today (created by or assigned to the cashier) that were created
  after every report the cashier printed today, and the \<open>PENDING\<close> orders assigned to the
  cashier whose notes match the waiter tag. Logout is refused exactly when one of the counts
  is positive. The cases are told apart by the field \<^verbatim>\<open>action_required\<close>, with the values
  \<^verbatim>\<open>report\<close>, \<^verbatim>\<open>waiter_orders_then_report\<close>, \<^verbatim>\<open>both\<close>, and \<^verbatim>\<open>none\<close> when logout is
  allowed; the field \<^verbatim>\<open>reason\<close> holds the sentence shown to the cashier.
\<close>

theorem check_logout_permission_decision:
  assumes "u_role cu = CASHIER"
  shows "(let r = check_logout_permission cu now None d;
              c = u_id cu;
              today = now div 86400;
              reports = {p. \<exists>s\<in>set (cashier_sessions d). s_cashier_id s = c \<and> s_login_date s = today
                              \<and> s_daily_report_printed s \<and> s_report_printed_at s = Some p};
              osr = length (filter (\<lambda>x. (cashier_id x = Some c \<or> assigned_cashier_id x = Some c)
                                      \<and> (\<exists>t. created_at x = Some t \<and> t div 86400 = today
                                             \<and> (\<forall>p\<in>reports. p < t)))
                                   (orders d));
              ud = length (filter (\<lambda>x. assigned_cashier_id x = Some c \<and> status x = PENDING
                                     \<and> (\<exists>n ps ss. o_notes x = Some n
                                          \<and> (case engine d of
                                                PostgreSQL \<Rightarrow> n = ps @ ''[WAITER ORDER]'' @ ss
                                              | SQLite \<Rightarrow> map ascii_lower n = ps @ ''[waiter order]'' @ ss)))
                                  (orders d))
          in lr_success r
             \<and> (can_logout r \<longleftrightarrow> \<not> (0 < osr \<or> 0 < ud))
             \<and> lr_orders_after_report r = Some osr
             \<and> lr_unpaid_waiter_orders r = Some ud
             \<and> action_required r =
                 Some (if 0 < osr \<and> 0 < ud then ''both''
                       else if 0 < osr then ''report''
                       else if 0 < ud then ''waiter_orders_then_report''
                       else ''none'')
             \<and> reason r =
                 Some (if 0 < osr \<and> 0 < ud then
                         ''You have '' @ str_nat osr @ '' orders since your last report AND ''
                           @ str_nat ud
                           @ '' unpaid waiter orders. You must first process/transfer all unpaid waiter orders, then generate your daily report!''
                       else if 0 < osr then
                         ''You have '' @ str_nat osr
                           @ '' orders since your last report. Generate your daily report to logout!''
                       else if 0 < ud then
                         ''You have '' @ str_nat ud
                           @ '' unpaid waiter orders. Process all waiter orders or transfer them to another cashier, then generate your daily report!''
                       else if reports \<noteq> {} then
                         ''No new orders since last report and no unpaid waiter orders''
                       else ''No orders today''))"
proof -
  let ?c = "u_id cu" and ?today = "now div 86400"
  have osr: "count_orders_after_report d ?c ?today =
     length (filter (\<lambda>x. (cashier_id x = Some ?c \<or> assigned_cashier_id x = Some ?c)
                       \<and> (\<exists>t. created_at x = Some t \<and> t div 86400 = ?today
                              \<and> (\<forall>p\<in>{p. \<exists>s\<in>set (cashier_sessions d). s_cashier_id s = ?c
                                      \<and> s_login_date s = ?today
                                      \<and> s_daily_report_printed s \<and> s_report_printed_at s = Some p}. p < t)))
                    (orders d))"
    unfolding count_orders_after_report_eq set_report_times ..
  have ud: "count_unpaid_waiter_orders d ?c =
     length (filter (\<lambda>x. assigned_cashier_id x = Some ?c \<and> status x = PENDING
                       \<and> (\<exists>n ps ss. o_notes x = Some n
                            \<and> (case engine d of
                                  PostgreSQL \<Rightarrow> n = ps @ ''[WAITER ORDER]'' @ ss
                                | SQLite \<Rightarrow> map ascii_lower n = ps @ ''[waiter order]'' @ ss)))
                    (orders d))"
    unfolding count_unpaid_waiter_orders_def unpaid_waiter_orders_query_def is_waiter_order_iff
    by (rule arg_cong [where f = length], rule filter_cong) auto
  have rep: "(last_report_time_of d ?c ?today \<noteq> None) \<longleftrightarrow>
     {p. \<exists>s\<in>set (cashier_sessions d). s_cashier_id s = ?c \<and> s_login_date s = ?today
            \<and> s_daily_report_printed s \<and> s_report_printed_at s = Some p} \<noteq> {}"
    unfolding set_report_times [symmetric] last_report_time_of_def
    by (cases "report_times d ?c ?today") simp_all
  have r: "check_logout_permission cu now None d =
      logout_decision (count_total_orders_today d ?c ?today) (count_orders_after_report d ?c ?today)
        (count_unpaid_waiter_orders d ?c) (last_report_time_of d ?c ?today \<noteq> None)"
    using assms by (simp add: check_logout_permission_def logout_rules_def Let_def date_of_def)
  show ?thesis
    unfolding Let_def r osr [symmetric] ud [symmetric] rep [symmetric]
    by (simp add: logout_decision_def Let_def)
qed


text \<open>
  The field \<^verbatim>\<open>reason\<close> is not the tag: with three orders since the report and no unpaid
  waiter order it is the sentence below, not \<^verbatim>\<open>report\<close>; with two unpaid waiter orders
  and nothing to report it is not \<^verbatim>\<open>waiter_orders_then_report\<close>.
\<close>

theorem check_logout_reason_is_a_sentence:
  "lr_orders_after_report (check_logout_permission cashier7 91400 None db_report_needed) = Some 3
   \<and> lr_unpaid_waiter_orders (check_logout_permission cashier7 91400 None db_report_needed) = Some 0
   \<and> reason (check_logout_permission cashier7 91400 None db_report_needed)
       = Some ''You have 3 orders since your last report. Generate your daily report to logout!''
   \<and> reason (check_logout_permission cashier7 91400 None db_report_needed) \<noteq> Some ''report''
   \<and> lr_orders_after_report (check_logout_permission cashier7 91400 None db_unpaid_only) = Some 0
   \<and> lr_unpaid_waiter_orders (check_logout_permission cashier7 91400 None db_unpaid_only) = Some 2
   \<and> reason (check_logout_permission cashier7 91400 None db_unpaid_only)
       \<noteq> Some ''waiter_orders_then_report''"
  by (simp add: check_logout_permission_def logout_rules_def logout_decision_def example_defs
      str_nat.simps Let_def)

lemmas logout_example_defs = db_reported_twice_def db_all_reported_def db_both_needed_def
  printed_session_def session0_def


theorem check_logout_permission_decision_witness:
  "u_role cashier7 = CASHIER
   \<and> lr_success (check_logout_permission cashier7 91400 None db_reported_twice)
   \<and> \<not> can_logout (check_logout_permission cashier7 91400 None db_reported_twice)
   \<and> lr_orders_after_report (check_logout_permission cashier7 91400 None db_reported_twice) = Some 3
   \<and> lr_unpaid_waiter_orders (check_logout_permission cashier7 91400 None db_reported_twice) = Some 0
   \<and> action_required (check_logout_permission cashier7 91400 None db_reported_twice) = Some ''report''
   \<and> \<not> can_logout (check_logout_permission cashier7 91400 None db_unpaid_only)
   \<and> lr_orders_after_report (check_logout_permission cashier7 91400 None db_unpaid_only) = Some 0
   \<and> lr_unpaid_waiter_orders (check_logout_permission cashier7 91400 None db_unpaid_only) = Some 2
   \<and> action_required (check_logout_permission cashier7 91400 None db_unpaid_only)
       = Some ''waiter_orders_then_report''
   \<and> \<not> can_logout (check_logout_permission cashier7 91400 None db_both_needed)
   \<and> lr_orders_after_report (check_logout_permission cashier7 91400 None db_both_needed) = Some 3
   \<and> lr_unpaid_waiter_orders (check_logout_permission cashier7 91400 None db_both_needed) = Some 1
   \<and> action_required (check_logout_permission cashier7 91400 None db_both_needed) = Some ''both''
   \<and> can_logout (check_logout_permission cashier7 91400 None db_all_reported)
   \<and> lr_orders_today (check_logout_permission cashier7 91400 None db_all_reported) = Some 3
   \<and> lr_orders_after_report (check_logout_permission cashier7 91400 None db_all_reported) = Some 0
   \<and> action_required (check_logout_permission cashier7 91400 None db_all_reported) = Some ''none''
   \<and> reason (check_logout_permission cashier7 91400 None db_all_reported)
       = Some ''No new orders since last report and no unpaid waiter orders''
   \<and> \<not> can_logout (check_logout_permission cashier7 91400 None db_report_needed)
   \<and> lr_orders_after_report (check_logout_permission cashier7 91400 None db_report_needed) = Some 3
   \<and> can_logout (check_logout_permission cashier7 91400 None empty_db)
   \<and> reason (check_logout_permission cashier7 91400 None empty_db) = Some ''No orders today''"
proof -
  have role: "u_role cashier7 = CASHIER" by (simp add: cashier7_def)
  have s: "lr_success (check_logout_permission cashier7 91400 None db_reported_twice)"
    using check_logout_permission_decision [OF role, of 91400 db_reported_twice]
    unfolding Let_def by (rule conjunct1)
  have a: "\<not> can_logout (check_logout_permission cashier7 91400 None db_reported_twice)
   \<and> lr_orders_after_report (check_logout_permission cashier7 91400 None db_reported_twice) = Some 3
   \<and> lr_unpaid_waiter_orders (check_logout_permission cashier7 91400 None db_reported_twice) = Some 0
   \<and> action_required (check_logout_permission cashier7 91400 None db_reported_twice) = Some ''report''"
    by (simp add: check_logout_permission_def logout_rules_def logout_decision_def example_defs
        logout_example_defs Let_def)
  have b: "\<not> can_logout (check_logout_permission cashier7 91400 None db_unpaid_only)
   \<and> lr_orders_after_report (check_logout_permission cashier7 91400 None db_unpaid_only) = Some 0
   \<and> lr_unpaid_waiter_orders (check_logout_permission cashier7 91400 None db_unpaid_only) = Some 2
   \<and> action_required (check_logout_permission cashier7 91400 None db_unpaid_only)
       = Some ''waiter_orders_then_report''"
    by (simp add: check_logout_permission_def logout_rules_def logout_decision_def example_defs
        Let_def)
  have c: "\<not> can_logout (check_logout_permission cashier7 91400 None db_both_needed)
   \<and> lr_orders_after_report (check_logout_permission cashier7 91400 None db_both_needed) = Some 3
   \<and> lr_unpaid_waiter_orders (check_logout_permission cashier7 91400 None db_both_needed) = Some 1
   \<and> action_required (check_logout_permission cashier7 91400 None db_both_needed) = Some ''both''"
    by (simp add: check_logout_permission_def logout_rules_def logout_decision_def example_defs
        logout_example_defs Let_def)
  have d: "can_logout (check_logout_permission cashier7 91400 None db_all_reported)
   \<and> lr_orders_today (check_logout_permission cashier7 91400 None db_all_reported) = Some 3
   \<and> lr_orders_after_report (check_logout_permission cashier7 91400 None db_all_reported) = Some 0
   \<and> action_required (check_logout_permission cashier7 91400 None db_all_reported) = Some ''none''
   \<and> reason (check_logout_permission cashier7 91400 None db_all_reported)
       = Some ''No new orders since last report and no unpaid waiter orders''"
    by (simp add: check_logout_permission_def logout_rules_def logout_decision_def example_defs
        logout_example_defs count_total_orders_today_def Let_def)
  have e: "\<not> can_logout (check_logout_permission cashier7 91400 None db_report_needed)
   \<and> lr_orders_after_report (check_logout_permission cashier7 91400 None db_report_needed) = Some 3
   \<and> can_logout (check_logout_permission cashier7 91400 None empty_db)
   \<and> reason (check_logout_permission cashier7 91400 None empty_db) = Some ''No orders today''"
    by (simp add: check_logout_permission_def logout_rules_def logout_decision_def example_defs
        Let_def)
  show ?thesis using role s a b c d e by simp
qed

text \<open>
  C9. The logout check fails open: when evaluating the rules raises, the handler answers
  \<^verbatim>\<open>can_logout = True\<close>, whatever orders the database holds.
\<close>

theorem check_logout_permission_fails_open:
  assumes "logout_rules cu now fault d = Inl e"
  shows "can_logout (check_logout_permission cu now fault d)
         \<and> lr_success (check_logout_permission cu now fault d)
         \<and> (u_role cu = CASHIER \<longrightarrow>
              reason (check_logout_permission cu now fault d) = Some ''System error - logout allowed'')"
  using assms by (simp add: check_logout_permission_def)

theorem check_logout_permission_fails_open_witness:
  "logout_rules cashier7 91400 (Some ''connection lost'') db_report_needed = Inl ''connection lost''
   \<and> can_logout (check_logout_permission cashier7 91400 (Some ''connection lost'') db_report_needed)
   \<and> reason (check_logout_permission cashier7 91400 (Some ''connection lost'') db_report_needed)
       = Some ''System error - logout allowed''
   \<and> count_orders_after_report db_report_needed (u_id cashier7) (date_of 91400) = 3
   \<and> \<not> can_logout (check_logout_permission cashier7 91400 None db_report_needed)"
  using check_logout_permission_fails_open
          [of cashier7 91400 "Some ''connection lost''" db_report_needed "''connection lost''"]
  by (simp add: logout_rules_def check_logout_permission_def logout_decision_def example_defs)

subsection \<open>Transfer\<close>

lemma find_map_same_key:
  assumes "\<And>x. k (f x) = k x"
  shows "find (\<lambda>x. k x = i) (map f xs) = map_option f (find (\<lambda>x. k x = i) xs)"
  by (induction xs) (simp_all add: assms)

lemma find_distinct_key:
  assumes "distinct (map k xs)" and "x \<in> set xs"
  shows "find (\<lambda>y. k y = k x) xs = Some x"
  using assms by (induction xs) (auto simp: image_iff)

lemma filter_full_length_covers:
  assumes pk: "distinct (map k xs)"
    and len: "length (filter (\<lambda>x. k x \<in> set ids \<and> T x) xs) = length ids"
  shows "k ` set (filter (\<lambda>x. k x \<in> set ids \<and> T x) xs) = set ids \<and> distinct ids"
proof -
  let ?m = "filter (\<lambda>x. k x \<in> set ids \<and> T x) xs"
  have d: "distinct (map k ?m)" using pk by (rule distinct_map_filter)
  have sub: "k ` set ?m \<subseteq> set ids" by auto
  have "length ?m = card (k ` set ?m)"
    using d by (metis distinct_card length_map set_map)
  then have c1: "card (k ` set ?m) = length ids" using len by simp
  have c2: "card (set ids) \<le> length ids" by (rule card_length)
  have c3: "card (k ` set ?m) \<le> card (set ids)" using sub by (simp add: card_mono)
  have ceq: "card (k ` set ?m) = card (set ids)" using c1 c2 c3 by simp
  have "k ` set ?m = set ids" using sub ceq by (simp add: card_subset_eq)
  moreover have "distinct ids" using c1 ceq by (simp add: card_distinct)
  ultimately show ?thesis by simp
qed


lemma transfer_orders_cases:
  "transfer_orders cu order_ids target stamp d =
     (if u_role cu \<noteq> CASHIER then (transfer_fail ''Only cashiers can transfer orders'', d)
      else if order_ids = [] \<or> target = None \<or> target = Some 0
      then (transfer_fail ''Missing order IDs or target cashier'', d)
      else if get_user d (the target) = None then (transfer_fail ''Invalid target cashier'', d)
      else if u_branch_id (the (get_user d (the target))) \<noteq> u_branch_id cu
              \<or> u_role (the (get_user d (the target))) \<noteq> CASHIER
      then (transfer_fail ''Invalid target cashier'', d)
      else if length (orders_to_transfer_query d (u_id cu) order_ids) \<noteq> length order_ids
      then (transfer_fail ''Some orders cannot be transferred'', d)
      else
        (\<lparr>tr_success = True, tr_error = None,
          tr_message = Some (''Successfully transferred ''
             @ str_nat (length (orders_to_transfer_query d (u_id cu) order_ids))
             @ '' orders to '' @ get_full_name (the (get_user d (the target)))),
          transferred_count = Some (length (orders_to_transfer_query d (u_id cu) order_ids))\<rparr>,
         d\<lparr>orders :=
             map (\<lambda>r. if o_id r \<in> set order_ids \<and> transferable (engine d) (u_id cu) r
                      then transfer_one cu (the (get_user d (the target))) (the target) stamp r else r)
                 (orders d),
           audit_logs := audit_logs d
             @ map (transfer_audit cu (the (get_user d (the target))))
                   (orders_to_transfer_query d (u_id cu) order_ids)\<rparr>))"
  unfolding transfer_orders_def Let_def
  by (cases "get_user d (the target)") simp_all

lemma transfer_fail_not_success: "\<not> tr_success (transfer_fail e)"
  by (simp add: transfer_fail_def)

lemma transfer_orders_failure_unchanged:
  "\<not> tr_success (fst (transfer_orders cu order_ids target stamp d))
   \<Longrightarrow> snd (transfer_orders cu order_ids target stamp d) = d"
  unfolding transfer_orders_cases by (auto simp: transfer_fail_not_success split: if_splits)

lemma transfer_orders_success_selected:
  assumes "tr_success (fst (transfer_orders cu order_ids target stamp d))"
  shows "\<exists>tc t. target = Some t \<and> get_user d t = Some tc
           \<and> length (orders_to_transfer_query d (u_id cu) order_ids) = length order_ids
           \<and> transfer_orders cu order_ids target stamp d =
               (\<lparr>tr_success = True, tr_error = None,
                 tr_message = Some (''Successfully transferred ''
                    @ str_nat (length (orders_to_transfer_query d (u_id cu) order_ids))
                    @ '' orders to '' @ get_full_name tc),
                 transferred_count = Some (length (orders_to_transfer_query d (u_id cu) order_ids))\<rparr>,
                d\<lparr>orders :=
                    map (\<lambda>r. if o_id r \<in> set order_ids \<and> transferable (engine d) (u_id cu) r
                             then transfer_one cu tc t stamp r else r) (orders d),
                  audit_logs := audit_logs d
                    @ map (transfer_audit cu tc) (orders_to_transfer_query d (u_id cu) order_ids)\<rparr>)"
proof -
  have c1: "u_role cu = CASHIER"
    using assms unfolding transfer_orders_cases
    by (simp add: transfer_fail_not_success split: if_splits)
  have c2: "\<not> (order_ids = [] \<or> target = None \<or> target = Some 0)"
    using assms c1 unfolding transfer_orders_cases
    by (simp add: transfer_fail_not_success split: if_splits)
  have c3: "get_user d (the target) \<noteq> None"
    using assms c1 c2 unfolding transfer_orders_cases
    by (simp add: transfer_fail_not_success split: if_splits)
  have c4: "\<not> (u_branch_id (the (get_user d (the target))) \<noteq> u_branch_id cu
              \<or> u_role (the (get_user d (the target))) \<noteq> CASHIER)"
    using assms c1 c2 c3 unfolding transfer_orders_cases
    by (simp add: transfer_fail_not_success split: if_splits)
  have c5: "length (orders_to_transfer_query d (u_id cu) order_ids) = length order_ids"
    using assms c1 c2 c3 c4 unfolding transfer_orders_cases
    by (simp add: transfer_fail_not_success split: if_splits)
  from c2 obtain t where t: "target = Some t" by (cases target) auto
  from c3 t obtain tc where tc: "get_user d t = Some tc" by (cases "get_user d t") auto
  show ?thesis
    using c1 c2 c3 c4 c5 t tc unfolding transfer_orders_cases by simp
qed

lemma transfer_orders_outcome:
  assumes pk: "distinct (map o_id (orders d))"
  shows "(let res = transfer_orders cu order_ids target stamp d in
           (\<not> tr_success (fst res) \<longrightarrow> snd res = d)
         \<and> ((\<exists>i\<in>set order_ids. \<not> (\<exists>r\<in>set (orders d). o_id r = i \<and> transferable (engine d) (u_id cu) r))
               \<longrightarrow> \<not> tr_success (fst res))
         \<and> (tr_success (fst res) \<longrightarrow>
              (\<exists>tc. get_user d (the target) = Some tc
                 \<and> (\<forall>i\<in>set order_ids. \<exists>r. get_order d i = Some r \<and> transferable (engine d) (u_id cu) r
                       \<and> get_order (snd res) i =
                           Some (r\<lparr>assigned_cashier_id := target,
                                   o_notes := Some (the (o_notes r) @ transfer_note cu tc stamp)\<rparr>))
                 \<and> audit_logs (snd res) =
                     audit_logs d @ map (transfer_audit cu tc) (orders_to_transfer_query d (u_id cu) order_ids)
                 \<and> length (orders_to_transfer_query d (u_id cu) order_ids) = length order_ids
                 \<and> o_id ` set (orders_to_transfer_query d (u_id cu) order_ids) = set order_ids
                 \<and> distinct order_ids
                 \<and> transferred_count (fst res) = Some (length order_ids))))"
proof -
  let ?res = "transfer_orders cu order_ids target stamp d"
  let ?sel = "orders_to_transfer_query d (u_id cu) order_ids"
  have unchanged: "\<not> tr_success (fst ?res) \<longrightarrow> snd ?res = d"
    using transfer_orders_failure_unchanged by blast
  have ok: "\<exists>tc. get_user d (the target) = Some tc
                 \<and> (\<forall>i\<in>set order_ids. \<exists>r. get_order d i = Some r \<and> transferable (engine d) (u_id cu) r
                       \<and> get_order (snd ?res) i =
                           Some (r\<lparr>assigned_cashier_id := target,
                                   o_notes := Some (the (o_notes r) @ transfer_note cu tc stamp)\<rparr>))
                 \<and> audit_logs (snd ?res) = audit_logs d @ map (transfer_audit cu tc) ?sel
                 \<and> length ?sel = length order_ids
                 \<and> o_id ` set ?sel = set order_ids
                 \<and> distinct order_ids
                 \<and> transferred_count (fst ?res) = Some (length order_ids)"
    if succ: "tr_success (fst ?res)"
  proof -
    from transfer_orders_success_selected [OF succ]
    obtain tc t where tgt: "target = Some t" and tc: "get_user d t = Some tc"
      and len: "length ?sel = length order_ids"
      and res: "?res =
               (\<lparr>tr_success = True, tr_error = None,
                 tr_message = Some (''Successfully transferred '' @ str_nat (length ?sel)
                    @ '' orders to '' @ get_full_name tc),
                 transferred_count = Some (length ?sel)\<rparr>,
                d\<lparr>orders :=
                    map (\<lambda>r. if o_id r \<in> set order_ids \<and> transferable (engine d) (u_id cu) r
                             then transfer_one cu tc t stamp r else r) (orders d),
                  audit_logs := audit_logs d @ map (transfer_audit cu tc) ?sel\<rparr>)"
      by blast
    let ?f = "\<lambda>r. if o_id r \<in> set order_ids \<and> transferable (engine d) (u_id cu) r
                   then transfer_one cu tc t stamp r else r"
    have cover: "o_id ` set ?sel = set order_ids \<and> distinct order_ids"
      using filter_full_length_covers [OF pk, of order_ids "transferable (engine d) (u_id cu)"] len
      by (simp add: orders_to_transfer_query_def)
    have key: "\<And>r. o_id (?f r) = o_id r" by (simp add: transfer_one_def)
    have each: "\<exists>r. get_order d i = Some r \<and> transferable (engine d) (u_id cu) r
                  \<and> get_order (snd ?res) i =
                      Some (r\<lparr>assigned_cashier_id := target,
                              o_notes := Some (the (o_notes r) @ transfer_note cu tc stamp)\<rparr>)"
      if i: "i \<in> set order_ids" for i
    proof -
      from cover i have "i \<in> o_id ` set ?sel" by simp
      then obtain r where r: "r \<in> set ?sel" and ri: "o_id r = i" by auto
      have rin: "r \<in> set (orders d)" and rt: "transferable (engine d) (u_id cu) r"
        using r by (auto simp: orders_to_transfer_query_def)
      have g: "get_order d i = Some r"
        using find_distinct_key [OF pk rin] ri by (simp add: get_order_def)
      have "get_order (snd ?res) i = map_option ?f (get_order d i)"
        unfolding res get_order_def using find_map_same_key [of o_id ?f i "orders d", OF key]
        by simp
      then have "get_order (snd ?res) i = Some (transfer_one cu tc t stamp r)"
        using g rt i ri by simp
      then show ?thesis using g rt tgt by (auto simp: transfer_one_def)
    qed
    have au: "audit_logs (snd ?res) = audit_logs d @ map (transfer_audit cu tc) ?sel"
      by (simp add: res)
    have cnt: "transferred_count (fst ?res) = Some (length order_ids)"
      using len by (simp add: res)
    have gu: "get_user d (the target) = Some tc" using tgt tc by simp
    show ?thesis
      using gu each au len cover cnt by blast
  qed
  have reject: "(\<exists>i\<in>set order_ids. \<not> (\<exists>r\<in>set (orders d). o_id r = i \<and> transferable (engine d) (u_id cu) r))
               \<longrightarrow> \<not> tr_success (fst ?res)"
  proof (intro impI notI)
    assume bad: "\<exists>i\<in>set order_ids. \<not> (\<exists>r\<in>set (orders d). o_id r = i \<and> transferable (engine d) (u_id cu) r)"
      and succ: "tr_success (fst ?res)"
    from ok [OF succ] have cov: "o_id ` set ?sel = set order_ids" by blast
    from bad obtain i where i: "i \<in> set order_ids"
      and none: "\<not> (\<exists>r\<in>set (orders d). o_id r = i \<and> transferable (engine d) (u_id cu) r)" by blast
    from cov i have "i \<in> o_id ` set ?sel" by simp
    then obtain r where "r \<in> set ?sel" "o_id r = i" by auto
    then have "r \<in> set (orders d) \<and> o_id r = i \<and> transferable (engine d) (u_id cu) r"
      by (auto simp: orders_to_transfer_query_def)
    with none show False by blast
  qed
  show ?thesis
    unfolding Let_def using unchanged reject ok by blast
qed

lemma transfer_orders_untouched:
  assumes "r \<in> set (orders d)" and "o_id r \<notin> set order_ids"
  shows "r \<in> set (orders (snd (transfer_orders cu order_ids target stamp d)))"
  unfolding transfer_orders_cases using assms
  by (auto intro!: image_eqI [where x = r])

text \<open>
  C3. Transfer is all or nothing. With order ids a primary key: a failed transfer leaves the
  database as it was; a batch naming an id with no row that is assigned to the caller,
  \<open>PENDING\<close> and tagged as a waiter order is rejected; and on success every order of the
  batch has its assigned cashier rewritten to the target and the line
  \<^verbatim>\<open>[TRANSFERRED] From: <caller> to: <target> at <time>\<close> appended to its notes, the orders
  outside the batch are left as they were, and one \<^verbatim>\<open>ORDER_TRANSFERRED\<close> audit entry is
  appended per order of the batch.
\<close>

theorem transfer_orders_all_or_nothing:
  assumes pk: "distinct (map o_id (orders d))"
  shows "(let res = transfer_orders cu order_ids target stamp d in
           (\<not> tr_success (fst res) \<longrightarrow> snd res = d)
         \<and> ((\<exists>i\<in>set order_ids. \<not> (\<exists>r\<in>set (orders d). o_id r = i \<and> transferable (engine d) (u_id cu) r))
               \<longrightarrow> \<not> tr_success (fst res))
         \<and> (tr_success (fst res) \<longrightarrow>
              (\<exists>tc. get_user d (the target) = Some tc
                 \<and> (\<forall>i\<in>set order_ids. \<exists>r. get_order d i = Some r \<and> transferable (engine d) (u_id cu) r
                       \<and> get_order (snd res) i =
                           Some (r\<lparr>assigned_cashier_id := target,
                                   o_notes := Some (the (o_notes r) @ CHR 0x0A # ''[TRANSFERRED] From: ''
                                             @ u_first_name cu @ '' '' @ u_last_name cu @ '' to: ''
                                             @ u_first_name tc @ '' '' @ u_last_name tc
                                             @ '' at '' @ stamp)\<rparr>))
                 \<and> (\<forall>r\<in>set (orders d). o_id r \<notin> set order_ids \<longrightarrow> r \<in> set (orders (snd res)))
                 \<and> audit_logs (snd res) =
                     audit_logs d @
                       map (\<lambda>r. \<lparr>a_user_id = u_id cu, a_action = ''ORDER_TRANSFERRED'',
                                 a_description = ''Order '' @ order_number r @ '' transferred from ''
                                   @ u_first_name cu @ '' '' @ u_last_name cu @ '' to ''
                                   @ u_first_name tc @ '' '' @ u_last_name tc\<rparr>)
                           (filter (\<lambda>r. o_id r \<in> set order_ids) (orders d))
                 \<and> length (filter (\<lambda>r. o_id r \<in> set order_ids) (orders d)) = length order_ids
                 \<and> length (orders_to_transfer_query d (u_id cu) order_ids) = length order_ids
                 \<and> o_id ` set (orders_to_transfer_query d (u_id cu) order_ids) = set order_ids
                 \<and> distinct order_ids
                 \<and> transferred_count (fst res) = Some (length order_ids))))"
proof -
  let ?res = "transfer_orders cu order_ids target stamp d"
  let ?sel = "orders_to_transfer_query d (u_id cu) order_ids"
  note aux = transfer_orders_outcome [OF pk, of cu order_ids target stamp, unfolded Let_def]
  have a1: "\<not> tr_success (fst ?res) \<longrightarrow> snd ?res = d" using aux by blast
  have a2: "(\<exists>i\<in>set order_ids. \<not> (\<exists>r\<in>set (orders d). o_id r = i \<and> transferable (engine d) (u_id cu) r))
               \<longrightarrow> \<not> tr_success (fst ?res)" using aux by blast
  have a3: "\<exists>tc. get_user d (the target) = Some tc
                 \<and> (\<forall>i\<in>set order_ids. \<exists>r. get_order d i = Some r \<and> transferable (engine d) (u_id cu) r
                       \<and> get_order (snd ?res) i =
                           Some (r\<lparr>assigned_cashier_id := target,
                                   o_notes := Some (the (o_notes r) @ CHR 0x0A # ''[TRANSFERRED] From: ''
                                             @ u_first_name cu @ '' '' @ u_last_name cu @ '' to: ''
                                             @ u_first_name tc @ '' '' @ u_last_name tc
                                             @ '' at '' @ stamp)\<rparr>))
                 \<and> (\<forall>r\<in>set (orders d). o_id r \<notin> set order_ids \<longrightarrow> r \<in> set (orders (snd ?res)))
                 \<and> audit_logs (snd ?res) =
                     audit_logs d @
                       map (\<lambda>r. \<lparr>a_user_id = u_id cu, a_action = ''ORDER_TRANSFERRED'',
                                 a_description = ''Order '' @ order_number r @ '' transferred from ''
                                   @ u_first_name cu @ '' '' @ u_last_name cu @ '' to ''
                                   @ u_first_name tc @ '' '' @ u_last_name tc\<rparr>)
                           (filter (\<lambda>r. o_id r \<in> set order_ids) (orders d))
                 \<and> length (filter (\<lambda>r. o_id r \<in> set order_ids) (orders d)) = length order_ids
                 \<and> length ?sel = length order_ids
                 \<and> o_id ` set ?sel = set order_ids
                 \<and> distinct order_ids
                 \<and> transferred_count (fst ?res) = Some (length order_ids)"
    if succ: "tr_success (fst ?res)"
  proof -
    from aux succ obtain tc where gu: "get_user d (the target) = Some tc"
      and each: "\<forall>i\<in>set order_ids. \<exists>r. get_order d i = Some r \<and> transferable (engine d) (u_id cu) r
                       \<and> get_order (snd ?res) i =
                           Some (r\<lparr>assigned_cashier_id := target,
                                   o_notes := Some (the (o_notes r) @ transfer_note cu tc stamp)\<rparr>)"
      and au: "audit_logs (snd ?res) = audit_logs d @ map (transfer_audit cu tc) ?sel"
      and len: "length ?sel = length order_ids"
      and cov: "o_id ` set ?sel = set order_ids"
      and dist: "distinct order_ids"
      and cnt: "transferred_count (fst ?res) = Some (length order_ids)"
      by blast
    have all_t: "transferable (engine d) (u_id cu) r"
      if rin: "r \<in> set (orders d)" and rid: "o_id r \<in> set order_ids" for r
    proof -
      from each rid obtain r' where g: "get_order d (o_id r) = Some r'"
        and t: "transferable (engine d) (u_id cu) r'" by blast
      have "get_order d (o_id r) = Some r"
        using find_distinct_key [OF pk rin] by (simp add: get_order_def)
      then show ?thesis using g t by simp
    qed
    have sel_eq: "?sel = filter (\<lambda>r. o_id r \<in> set order_ids) (orders d)"
      unfolding orders_to_transfer_query_def
      by (rule filter_cong) (auto simp: all_t)
    have untouched: "\<forall>r\<in>set (orders d). o_id r \<notin> set order_ids \<longrightarrow> r \<in> set (orders (snd ?res))"
      using transfer_orders_untouched by blast
    have each': "\<forall>i\<in>set order_ids. \<exists>r. get_order d i = Some r \<and> transferable (engine d) (u_id cu) r
                       \<and> get_order (snd ?res) i =
                           Some (r\<lparr>assigned_cashier_id := target,
                                   o_notes := Some (the (o_notes r) @ CHR 0x0A # ''[TRANSFERRED] From: ''
                                             @ u_first_name cu @ '' '' @ u_last_name cu @ '' to: ''
                                             @ u_first_name tc @ '' '' @ u_last_name tc
                                             @ '' at '' @ stamp)\<rparr>)"
      using each by (simp add: transfer_note_def get_full_name_def)
    have au': "audit_logs (snd ?res) =
                     audit_logs d @
                       map (\<lambda>r. \<lparr>a_user_id = u_id cu, a_action = ''ORDER_TRANSFERRED'',
                                 a_description = ''Order '' @ order_number r @ '' transferred from ''
                                   @ u_first_name cu @ '' '' @ u_last_name cu @ '' to ''
                                   @ u_first_name tc @ '' '' @ u_last_name tc\<rparr>)
                           (filter (\<lambda>r. o_id r \<in> set order_ids) (orders d))"
      unfolding au sel_eq by (simp add: transfer_audit_def get_full_name_def)
    have len': "length (filter (\<lambda>r. o_id r \<in> set order_ids) (orders d)) = length order_ids"
      using len sel_eq by simp
    show ?thesis using gu each' untouched au' len' len cov dist cnt by blast
  qed
  show ?thesis unfolding Let_def using a1 a2 a3 by blast
qed


theorem transfer_orders_all_or_nothing_witness:
  "distinct (map o_id (orders db_transfer))
   \<and> tr_success (fst (transfer_orders cashier7 [1, 2] (Some 8) ''2024-01-01 10:00:00'' db_transfer))
   \<and> map assigned_cashier_id
         (orders (snd (transfer_orders cashier7 [1, 2] (Some 8) ''2024-01-01 10:00:00'' db_transfer)))
       = [Some 8, Some 8, Some 7]
   \<and> map o_notes
         (orders (snd (transfer_orders cashier7 [1, 2] (Some 8) ''2024-01-01 10:00:00'' db_transfer)))
       = [Some (''[WAITER ORDER] Created by: Wes Ray | Assigned to: Ann Lee (Admin Assigned)''
                @ [CHR 0x0A] @ ''[TRANSFERRED] From: Ann Lee to: Bo Kim at 2024-01-01 10:00:00''),
          Some (''[WAITER ORDER] Created by: Wes Ray | Assigned to: Ann Lee (Admin Assigned)''
                @ [CHR 0x0A] @ ''[TRANSFERRED] From: Ann Lee to: Bo Kim at 2024-01-01 10:00:00''),
          Some ''[WAITER ORDER] Created by: Wes Ray | Assigned to: Ann Lee (Admin Assigned)'']
   \<and> audit_logs (snd (transfer_orders cashier7 [1, 2] (Some 8) ''2024-01-01 10:00:00'' db_transfer))
       = [\<lparr>a_user_id = 7, a_action = ''ORDER_TRANSFERRED'',
           a_description = ''Order ORD19700101BBBB transferred from Ann Lee to Bo Kim''\<rparr>,
          \<lparr>a_user_id = 7, a_action = ''ORDER_TRANSFERRED'',
           a_description = ''Order ORD19700101BBBB transferred from Ann Lee to Bo Kim''\<rparr>]
   \<and> \<not> tr_success (fst (transfer_orders cashier7 [1, 3] (Some 8) ''2024-01-01 10:00:00'' db_transfer))
   \<and> snd (transfer_orders cashier7 [1, 3] (Some 8) ''2024-01-01 10:00:00'' db_transfer) = db_transfer"
proof -
  have pk: "distinct (map o_id (orders db_transfer))"
    by (simp add: db_transfer_def empty_db_def pending_waiter_order_def paid_waiter_order_def)
  have ok: "tr_success (fst (transfer_orders cashier7 [1, 2] (Some 8) ''2024-01-01 10:00:00'' db_transfer))"
    by (simp add: transfer_orders_def get_user_def orders_to_transfer_query_def transferable_def
        db_transfer_def cashier8_def paid_waiter_order_def example_defs)
  have bad: "\<exists>i\<in>set [1, 3]. \<not> (\<exists>r\<in>set (orders db_transfer). o_id r = i
                \<and> transferable (engine db_transfer) (u_id cashier7) r)"
    by (simp add: transferable_def db_transfer_def paid_waiter_order_def example_defs)
  have upd: "map assigned_cashier_id
         (orders (snd (transfer_orders cashier7 [1, 2] (Some 8) ''2024-01-01 10:00:00'' db_transfer)))
       = [Some 8, Some 8, Some 7]
     \<and> map o_notes
         (orders (snd (transfer_orders cashier7 [1, 2] (Some 8) ''2024-01-01 10:00:00'' db_transfer)))
       = [Some (''[WAITER ORDER] Created by: Wes Ray | Assigned to: Ann Lee (Admin Assigned)''
                @ [CHR 0x0A] @ ''[TRANSFERRED] From: Ann Lee to: Bo Kim at 2024-01-01 10:00:00''),
          Some (''[WAITER ORDER] Created by: Wes Ray | Assigned to: Ann Lee (Admin Assigned)''
                @ [CHR 0x0A] @ ''[TRANSFERRED] From: Ann Lee to: Bo Kim at 2024-01-01 10:00:00''),
          Some ''[WAITER ORDER] Created by: Wes Ray | Assigned to: Ann Lee (Admin Assigned)'']
     \<and> audit_logs (snd (transfer_orders cashier7 [1, 2] (Some 8) ''2024-01-01 10:00:00'' db_transfer))
       = [\<lparr>a_user_id = 7, a_action = ''ORDER_TRANSFERRED'',
           a_description = ''Order ORD19700101BBBB transferred from Ann Lee to Bo Kim''\<rparr>,
          \<lparr>a_user_id = 7, a_action = ''ORDER_TRANSFERRED'',
           a_description = ''Order ORD19700101BBBB transferred from Ann Lee to Bo Kim''\<rparr>]"
    by (simp add: transfer_orders_def get_user_def orders_to_transfer_query_def transferable_def
        transfer_one_def transfer_note_def transfer_audit_def get_full_name_def
        db_transfer_def cashier8_def paid_waiter_order_def example_defs)
  show ?thesis
    using transfer_orders_all_or_nothing [OF pk, of cashier7 "[1, 3]" "Some 8" "''2024-01-01 10:00:00''"]
      pk ok bad upd
    unfolding Let_def by blast
qed

subsection \<open>Editing\<close>

lemma edit_fail_not_success: "\<not> e_success (edit_fail m)"
  by (simp add: edit_fail_def)













subsection \<open>PIN codes\<close>

lemma split_dollar_append:
  "CHR ''$'' \<notin> set a \<Longrightarrow> split_dollar (a @ CHR ''$'' # b) = (a, b)"
  by (induction a) (auto simp: split_dollar_def)

lemma DEFAULT_METHOD_no_dollar: "CHR ''$'' \<notin> set DEFAULT_METHOD"
  by (simp add: DEFAULT_METHOD_def)

lemma check_generated_hash:
  assumes "CHR ''$'' \<notin> set salt"
  shows "check_password_hash kdf (generate_password_hash kdf salt pin) pin'
         \<longleftrightarrow> kdf DEFAULT_METHOD salt pin' = kdf DEFAULT_METHOD salt pin"
proof -
  have two: "\<not> length (filter (\<lambda>c. c = CHR ''$'') (generate_password_hash kdf salt pin)) < 2"
    by (simp add: generate_password_hash_def)
  have s1: "split_dollar (generate_password_hash kdf salt pin)
              = (DEFAULT_METHOD, salt @ CHR ''$'' # kdf DEFAULT_METHOD salt pin)"
    using split_dollar_append [OF DEFAULT_METHOD_no_dollar] by (simp add: generate_password_hash_def)
  have s2: "split_dollar (salt @ CHR ''$'' # kdf DEFAULT_METHOD salt pin)
              = (salt, kdf DEFAULT_METHOD salt pin)"
    using split_dollar_append [OF assms] by simp
  show ?thesis
    unfolding check_password_hash_def using two s1 s2 by (auto simp: Let_def)
qed

lemma check_empty_hash: "\<not> check_password_hash kdf [] pin"
  by (simp add: check_password_hash_def)

lemma find_append_new:
  "find P xs = None \<Longrightarrow> P y \<Longrightarrow> find P (xs @ [y]) = Some y"
  by (induction xs) (auto split: if_splits)

lemma find_map_update_first:
  assumes "find Q xs = Some x0" and "\<And>x. Q x \<Longrightarrow> P (f x)" and "\<And>x. P x \<Longrightarrow> Q x"
  shows "\<exists>x. Q x \<and> find P (map (\<lambda>x. if Q x then f x else x) xs) = Some (f x)"
  using assms(1)
proof (induction xs)
  case Nil
  then show ?case by simp
next
  case (Cons a xs)
  show ?case
  proof (cases "Q a")
    case True
    then show ?thesis using assms(2) by auto
  next
    case False
    then have "\<not> P a" using assms(3) by blast
    then show ?thesis using False Cons by auto
  qed
qed

lemma set_pin_success:
  assumes "success (fst (set_pin kdf salt cu pin confirm pins))"
  shows "\<exists>b. u_branch_id cu = Some b \<and> is_four_digits pin \<and> pin = confirm
           \<and> snd (set_pin kdf salt cu pin confirm pins) =
               (case find (\<lambda>r. cp_cashier_id r = u_id cu \<and> cp_branch_id r = b) pins of
                  Some cashier_pin \<Rightarrow>
                    map (\<lambda>r. if cp_cashier_id r = u_id cu \<and> cp_branch_id r = b
                             then (CashierPin_set_pin kdf salt pin r)\<lparr>cp_is_active := True\<rparr> else r) pins
                | None \<Rightarrow>
                    pins @ [CashierPin_set_pin kdf salt pin
                              \<lparr>cp_cashier_id = u_id cu, cp_branch_id = b,
                               cp_pin_code_hash = [], cp_is_active = True\<rparr>])"
proof -
  have c0: "u_role cu = CASHIER"
    using assms by (rule contrapos_pp) (simp add: set_pin_def fail_response_def)
  have c1: "is_four_digits pin"
    using assms c0 by (rule_tac ccontr) (simp add: set_pin_def fail_response_def)
  have c2: "pin = confirm"
    using assms c0 c1 by (rule_tac ccontr) (simp add: set_pin_def fail_response_def)
  obtain b where b: "u_branch_id cu = Some b"
    using assms c0 c1 c2 by (cases "u_branch_id cu") (simp_all add: set_pin_def fail_response_def)
  show ?thesis
    using c0 c1 c2 b by (cases "find (\<lambda>r. cp_cashier_id r = u_id cu \<and> cp_branch_id r = b) pins")
      (simp_all add: set_pin_def)
qed

text \<open>
  C7 (amended). The cashier PIN is stored only as a salted hash: \<open>set_pin\<close> changes nothing
  of the row but \<open>pin_code_hash\<close>, and after a successful \<open>set_pin\<close> request verification
  accepts exactly the PINs whose digest under the stored salt equals the stored digest.
  The administrative PIN is stored as a hash and, beside it, as the raw PIN in the legacy
  column \<open>pin_code\<close>; its check compares against the hash whenever one is stored and against
  the plain text only when the hash is empty. Verification answers \<open>False\<close> when no active
  record exists for the scope.
\<close>

theorem pin_storage_and_verification:
  assumes salt: "CHR ''$'' \<notin> set salt"
  shows "CashierPin_set_pin kdf salt pin r = r\<lparr>cp_pin_code_hash := generate_password_hash kdf salt pin\<rparr>
       \<and> (success (fst (set_pin kdf salt cu pin confirm pins)) \<longrightarrow>
            (\<forall>pin'. verify_cashier_pin kdf (snd (set_pin kdf salt cu pin confirm pins))
                       (u_id cu) (the (u_branch_id cu)) pin'
                     \<longleftrightarrow> kdf DEFAULT_METHOD salt pin' = kdf DEFAULT_METHOD salt pin))
       \<and> (find (\<lambda>r. cp_cashier_id r = c \<and> cp_branch_id r = b \<and> cp_is_active r) pins = None
            \<longrightarrow> \<not> verify_cashier_pin kdf pins c b pin')
       \<and> ap_pin_code_hash (AdminPinCode_set_pin kdf salt pin a) = generate_password_hash kdf salt pin
       \<and> ap_pin_code (AdminPinCode_set_pin kdf salt pin a) = Some pin
       \<and> (AdminPinCode_check_pin kdf (AdminPinCode_set_pin kdf salt pin a) pin'
            \<longleftrightarrow> kdf DEFAULT_METHOD salt pin' = kdf DEFAULT_METHOD salt pin)
       \<and> (ap_pin_code_hash a \<noteq> [] \<longrightarrow>
            AdminPinCode_check_pin kdf a pin' = check_password_hash kdf (ap_pin_code_hash a) pin')
       \<and> (ap_pin_code_hash a = [] \<and> ap_pin_code a = Some legacy \<and> legacy \<noteq> [] \<longrightarrow>
            AdminPinCode_check_pin kdf a pin' = (legacy = pin'))
       \<and> (find (\<lambda>r. ap_branch_id r = b \<and> ap_is_active r) apins = None
            \<longrightarrow> \<not> verify_pin kdf apins b pin')
       \<and> (find (\<lambda>r. Some (ap_branch_id r) = u_branch_id cu \<and> ap_pin_type r = ''order_editing''
                       \<and> ap_is_active r) apins = None
            \<longrightarrow> \<not> verify_admin_pin_for_editing kdf cu pin' apins)"
proof -
  have gen_ne: "generate_password_hash kdf salt pin \<noteq> []"
    by (simp add: generate_password_hash_def DEFAULT_METHOD_def)
  have V: "verify_cashier_pin kdf (snd (set_pin kdf salt cu pin confirm pins))
             (u_id cu) (the (u_branch_id cu)) pin'
           \<longleftrightarrow> kdf DEFAULT_METHOD salt pin' = kdf DEFAULT_METHOD salt pin"
    if succ: "success (fst (set_pin kdf salt cu pin confirm pins))" for pin'
  proof -
    let ?Q = "\<lambda>b r. cp_cashier_id r = u_id cu \<and> cp_branch_id r = b"
    let ?P = "\<lambda>b r. cp_cashier_id r = u_id cu \<and> cp_branch_id r = b \<and> cp_is_active r"
    let ?f = "\<lambda>r. (CashierPin_set_pin kdf salt pin r)\<lparr>cp_is_active := True\<rparr>"
    from set_pin_success [OF succ] obtain b where b: "u_branch_id cu = Some b"
      and res: "snd (set_pin kdf salt cu pin confirm pins) =
               (case find (?Q b) pins of
                  Some cashier_pin \<Rightarrow> map (\<lambda>r. if ?Q b r then ?f r else r) pins
                | None \<Rightarrow>
                    pins @ [CashierPin_set_pin kdf salt pin
                              \<lparr>cp_cashier_id = u_id cu, cp_branch_id = b,
                               cp_pin_code_hash = [], cp_is_active = True\<rparr>])"
      by blast
    have "\<exists>x. find (?P b) (snd (set_pin kdf salt cu pin confirm pins)) = Some x
             \<and> cp_pin_code_hash x = generate_password_hash kdf salt pin"
    proof (cases "find (?Q b) pins")
      case None
      then have "find (?P b) pins = None" by (auto simp: find_None_iff)
      then have "find (?P b) (pins @ [CashierPin_set_pin kdf salt pin
                          \<lparr>cp_cashier_id = u_id cu, cp_branch_id = b,
                           cp_pin_code_hash = [], cp_is_active = True\<rparr>])
               = Some (CashierPin_set_pin kdf salt pin
                          \<lparr>cp_cashier_id = u_id cu, cp_branch_id = b,
                           cp_pin_code_hash = [], cp_is_active = True\<rparr>)"
        by (rule find_append_new) (simp add: CashierPin_set_pin_def)
      then show ?thesis unfolding res using None
        by (simp add: CashierPin_set_pin_def)
    next
      case (Some x0)
      have q: "\<And>x. ?Q b x \<Longrightarrow> ?P b (?f x)" by (simp add: CashierPin_set_pin_def)
      have p: "\<And>x. ?P b x \<Longrightarrow> ?Q b x" by simp
      from find_map_update_first [of "?Q b" pins x0 "?P b" ?f, OF Some q p]
      obtain x where "find (?P b) (map (\<lambda>x. if ?Q b x then ?f x else x) pins) = Some (?f x)"
        by blast
      then show ?thesis unfolding res using Some
        by (simp add: CashierPin_set_pin_def)
    qed
    then obtain x where x: "find (?P b) (snd (set_pin kdf salt cu pin confirm pins)) = Some x"
      and hx: "cp_pin_code_hash x = generate_password_hash kdf salt pin" by blast
    show ?thesis
      using b x hx check_generated_hash [OF salt, of kdf pin pin']
      by (simp add: verify_cashier_pin_def CashierPin_check_pin_def)
  qed
  have c1: "CashierPin_set_pin kdf salt pin r = r\<lparr>cp_pin_code_hash := generate_password_hash kdf salt pin\<rparr>"
    by (simp add: CashierPin_set_pin_def)
  have c3: "find (\<lambda>r. cp_cashier_id r = c \<and> cp_branch_id r = b \<and> cp_is_active r) pins = None
            \<longrightarrow> \<not> verify_cashier_pin kdf pins c b pin'"
    by (simp add: verify_cashier_pin_def)
  have a1: "ap_pin_code_hash (AdminPinCode_set_pin kdf salt pin a) = generate_password_hash kdf salt pin
       \<and> ap_pin_code (AdminPinCode_set_pin kdf salt pin a) = Some pin"
    by (simp add: AdminPinCode_set_pin_def)
  have a2: "AdminPinCode_check_pin kdf (AdminPinCode_set_pin kdf salt pin a) pin'
            \<longleftrightarrow> kdf DEFAULT_METHOD salt pin' = kdf DEFAULT_METHOD salt pin"
    using gen_ne check_generated_hash [OF salt, of kdf pin pin']
    by (simp add: AdminPinCode_check_pin_def AdminPinCode_set_pin_def)
  have a3: "ap_pin_code_hash a \<noteq> [] \<longrightarrow>
            AdminPinCode_check_pin kdf a pin' = check_password_hash kdf (ap_pin_code_hash a) pin'"
    by (simp add: AdminPinCode_check_pin_def)
  have a4: "ap_pin_code_hash a = [] \<and> ap_pin_code a = Some legacy \<and> legacy \<noteq> [] \<longrightarrow>
            AdminPinCode_check_pin kdf a pin' = (legacy = pin')"
    by (simp add: AdminPinCode_check_pin_def)
  have a5: "find (\<lambda>r. ap_branch_id r = b \<and> ap_is_active r) apins = None
            \<longrightarrow> \<not> verify_pin kdf apins b pin'"
    by (simp add: verify_pin_def)
  have a6: "find (\<lambda>r. Some (ap_branch_id r) = u_branch_id cu \<and> ap_pin_type r = ''order_editing''
                       \<and> ap_is_active r) apins = None
            \<longrightarrow> \<not> verify_admin_pin_for_editing kdf cu pin' apins"
    by (simp add: verify_admin_pin_for_editing_def)
  show ?thesis
    using V c1 c3 a1 a2 a3 a4 a5 a6 by blast
qed

theorem admin_set_pin_keeps_plain_pin:
  "ap_pin_code (AdminPinCode_set_pin toy_kdf ''a1B2'' ''1234'' blank_admin_pin) = Some ''1234''"
  by (simp add: AdminPinCode_set_pin_def)

theorem pin_storage_and_verification_witness:
  "CHR ''$'' \<notin> set ''a1B2''
   \<and> success (fst (set_pin toy_kdf ''a1B2'' cashier7 ''1234'' ''1234'' []))
   \<and> verify_cashier_pin toy_kdf (snd (set_pin toy_kdf ''a1B2'' cashier7 ''1234'' ''1234'' [])) 7 1 ''1234''
   \<and> \<not> verify_cashier_pin toy_kdf (snd (set_pin toy_kdf ''a1B2'' cashier7 ''1234'' ''1234'' [])) 7 1 ''4321''
   \<and> \<not> verify_cashier_pin toy_kdf [] 7 1 ''1234''
   \<and> AdminPinCode_check_pin toy_kdf (blank_admin_pin\<lparr>ap_pin_code := Some ''9999''\<rparr>) ''9999''
   \<and> \<not> verify_pin toy_kdf [] 1 ''1234''
   \<and> \<not> verify_admin_pin_for_editing toy_kdf cashier7 ''1234'' []"
proof -
  have salt: "CHR ''$'' \<notin> set ''a1B2''" by simp
  have succ: "success (fst (set_pin toy_kdf ''a1B2'' cashier7 ''1234'' ''1234'' []))"
    by (simp add: set_pin_def is_four_digits_def cashier7_def ok_response_def)
  have br: "u_id cashier7 = 7 \<and> the (u_branch_id cashier7) = 1" by (simp add: cashier7_def)
  have k1: "toy_kdf DEFAULT_METHOD ''a1B2'' ''1234'' = toy_kdf DEFAULT_METHOD ''a1B2'' ''1234''" by simp
  have k2: "toy_kdf DEFAULT_METHOD ''a1B2'' ''4321'' \<noteq> toy_kdf DEFAULT_METHOD ''a1B2'' ''1234''"
    by (simp add: toy_kdf_def)
  have h: "ap_pin_code_hash (blank_admin_pin\<lparr>ap_pin_code := Some ''9999''\<rparr>) = []
           \<and> ap_pin_code (blank_admin_pin\<lparr>ap_pin_code := Some ''9999''\<rparr>) = Some ''9999''
           \<and> ''9999'' \<noteq> []"
    by (simp add: blank_admin_pin_def)
  note t = pin_storage_and_verification [OF salt, where kdf = toy_kdf and pin = "''1234''"
      and cu = cashier7 and confirm = "''1234''" and pins = "[]" and c = 7 and b = 1
      and a = "blank_admin_pin\<lparr>ap_pin_code := Some ''9999''\<rparr>" and legacy = "''9999''"
      and apins = "[]" and r = "\<lparr>cp_cashier_id = 7, cp_branch_id = 1, cp_pin_code_hash = [], cp_is_active = True\<rparr>"]
  have v1: "verify_cashier_pin toy_kdf (snd (set_pin toy_kdf ''a1B2'' cashier7 ''1234'' ''1234'' [])) 7 1 ''1234''"
    using t [of "''1234''"] succ br by simp
  have v2: "\<not> verify_cashier_pin toy_kdf (snd (set_pin toy_kdf ''a1B2'' cashier7 ''1234'' ''1234'' [])) 7 1 ''4321''"
    using t [of "''4321''"] succ br k2 by simp
  have v3: "\<not> verify_cashier_pin toy_kdf [] 7 1 ''1234''"
    using t [of "''1234''"] by simp
  have v4: "AdminPinCode_check_pin toy_kdf (blank_admin_pin\<lparr>ap_pin_code := Some ''9999''\<rparr>) ''9999''"
    using t [of "''9999''"] h by simp
  have v5: "\<not> verify_pin toy_kdf [] 1 ''1234'' \<and> \<not> verify_admin_pin_for_editing toy_kdf cashier7 ''1234'' []"
    using t [of "''1234''"] by simp
  show ?thesis using salt succ v1 v2 v3 v4 v5 by blast
qed

subsection \<open>The daily session\<close>

lemma find_update_first:
  assumes "\<And>x. P x \<Longrightarrow> P (f x)"
  shows "find P (update_first P f xs) = map_option f (find P xs)"
  by (induction xs) (simp_all add: assms)

lemma find_append_fresh:
  "find P xs = None \<Longrightarrow> P y \<Longrightarrow> find P (xs @ [y]) = Some y"
  by (induction xs) (auto split: if_splits)

lemma get_or_create_finds:
  "session_of (snd (get_or_create_today_session c now d)) c now
     = Some (fst (get_or_create_today_session c now d))"
proof (cases "find (todays_session c (date_of now)) (cashier_sessions d)")
  case None
  then show ?thesis
    by (simp add: get_or_create_today_session_def session_of_def Let_def
        find_append_fresh todays_session_def)
next
  case (Some s)
  then show ?thesis
    by (simp add: get_or_create_today_session_def session_of_def Let_def)
qed

lemma get_or_create_existing:
  "session_of d c now = Some s \<Longrightarrow> get_or_create_today_session c now d = (s, d)"
  by (simp add: get_or_create_today_session_def session_of_def Let_def)

lemma get_or_create_audit:
  "audit_logs (snd (get_or_create_today_session c now d)) = audit_logs d"
  by (simp add: get_or_create_today_session_def Let_def split: option.splits)

lemma mark_daily_report_printed_once:
  assumes role: "u_role cu = CASHIER" and br: "u_branch_id cu = Some b"
  shows "fst (mark_daily_report_printed cu now d)
       \<and> (\<exists>s. session_of (snd (mark_daily_report_printed cu now d)) (u_id cu) now = Some s
               \<and> s_daily_report_printed s \<and> s_report_printed_at s = Some now)
       \<and> audit_logs (snd (mark_daily_report_printed cu now d)) =
           (if (case session_of d (u_id cu) now of Some s \<Rightarrow> s_daily_report_printed s | None \<Rightarrow> False)
            then audit_logs d
            else audit_logs d @
                   [\<lparr>a_user_id = u_id cu, a_action = ''DAILY_REPORT_MARKED'',
                     a_description = ''Cashier '' @ get_full_name cu
                       @ '' manually marked daily report as printed for '' @ str_nat (date_of now)\<rparr>])"
proof -
  let ?c = "u_id cu"
  let ?P = "todays_session ?c (date_of now)"
  let ?g = "\<lambda>s. mark_report_printed now (the (ensure_branch cu s))"
  obtain s0 d1 where gc: "get_or_create_today_session ?c now d = (s0, d1)"
    by (cases "get_or_create_today_session ?c now d") blast
  have f1: "session_of d1 ?c now = Some s0"
    using get_or_create_finds [where d = d and c = ?c and now = now] gc by simp
  have a1: "audit_logs d1 = audit_logs d"
    using get_or_create_audit [where d = d and c = ?c and now = now] gc by simp
  have eb: "\<And>s. ensure_branch cu s \<noteq> None"
    by (simp add: ensure_branch_def br)
  have pres: "\<And>s. ?P s \<Longrightarrow> ?P (?g s)"
    by (auto simp: todays_session_def mark_report_printed_def ensure_branch_def br)
  have res: "mark_daily_report_printed cu now d =
      (True,
       d1\<lparr>cashier_sessions := update_first ?P ?g (cashier_sessions d1),
          audit_logs :=
            (if \<not> s_daily_report_printed s0
             then audit_logs d1 @
                    [\<lparr>a_user_id = u_id cu, a_action = ''DAILY_REPORT_MARKED'',
                      a_description = ''Cashier '' @ get_full_name cu
                        @ '' manually marked daily report as printed for '' @ str_nat (date_of now)\<rparr>]
             else audit_logs d1)\<rparr>)"
    using role gc eb [of s0] by (auto simp: mark_daily_report_printed_def)
  have fnd: "session_of (snd (mark_daily_report_printed cu now d)) ?c now = Some (?g s0)"
    unfolding res using find_update_first [of ?P ?g "cashier_sessions d1", OF pres] f1
    by (simp add: session_of_def)
  have g0: "s_daily_report_printed (?g s0) \<and> s_report_printed_at (?g s0) = Some now"
    by (simp add: mark_report_printed_def)
  have was: "(case session_of d ?c now of Some s \<Rightarrow> s_daily_report_printed s | None \<Rightarrow> False)
             = s_daily_report_printed s0"
  proof (cases "session_of d ?c now")
    case None
    then show ?thesis using gc
      by (auto simp: get_or_create_today_session_def session_of_def Let_def)
  next
    case (Some s)
    then show ?thesis using gc get_or_create_existing [OF Some] by simp
  qed
  have au: "audit_logs (snd (mark_daily_report_printed cu now d)) =
           (if s_daily_report_printed s0 then audit_logs d
            else audit_logs d @
                   [\<lparr>a_user_id = u_id cu, a_action = ''DAILY_REPORT_MARKED'',
                     a_description = ''Cashier '' @ get_full_name cu
                       @ '' manually marked daily report as printed for '' @ str_nat (date_of now)\<rparr>])"
    unfolding res by (simp add: a1)
  show ?thesis
    using fnd g0 au was by (simp add: res)
qed

text \<open>
  C5 (amended). Marking the daily report printed twice in the same session keeps the flag
  set, writes the audit entry of \<^verbatim>\<open>mark_daily_report_printed\<close> once (on the first call, and
  only if the session was not marked before), and leaves \<open>report_printed_at\<close> equal to the
  time of the second call: each call overwrites the timestamp.
\<close>

theorem mark_report_printed_twice:
  assumes role: "u_role cu = CASHIER" and br: "u_branch_id cu = Some b"
    and day: "date_of now2 = date_of now1"
  shows "(let r1 = mark_daily_report_printed cu now1 d;
              r2 = mark_daily_report_printed cu now2 (snd r1)
          in fst r1 \<and> fst r2
           \<and> (\<exists>s. session_of (snd r1) (u_id cu) now1 = Some s
                  \<and> s_daily_report_printed s \<and> s_report_printed_at s = Some now1)
           \<and> (\<exists>s. session_of (snd r2) (u_id cu) now2 = Some s
                  \<and> s_daily_report_printed s \<and> s_report_printed_at s = Some now2)
           \<and> audit_logs (snd r2) = audit_logs (snd r1)
           \<and> length (audit_logs (snd r1)) =
               length (audit_logs d)
                 + (if (case session_of d (u_id cu) now1 of
                          Some s \<Rightarrow> s_daily_report_printed s | None \<Rightarrow> False) then 0 else 1))
         \<and> s_daily_report_printed (mark_report_printed now2 (mark_report_printed now1 s0))
         \<and> s_report_printed_at (mark_report_printed now2 (mark_report_printed now1 s0)) = Some now2"
proof -
  let ?r1 = "mark_daily_report_printed cu now1 d"
  let ?r2 = "mark_daily_report_printed cu now2 (snd ?r1)"
  note o1 = mark_daily_report_printed_once [OF role br, where now = now1 and d = d]
  note o2 = mark_daily_report_printed_once [OF role br, where now = now2 and d = "snd ?r1"]
  from o1 obtain s1 where s1: "session_of (snd ?r1) (u_id cu) now1 = Some s1"
    and p1: "s_daily_report_printed s1" by blast
  have "session_of (snd ?r1) (u_id cu) now2 = Some s1"
    using s1 day by (simp add: session_of_def)
  then have au2: "audit_logs (snd ?r2) = audit_logs (snd ?r1)"
    using o2 p1 by simp
  have len: "length (audit_logs (snd ?r1)) =
               length (audit_logs d)
                 + (if (case session_of d (u_id cu) now1 of
                          Some s \<Rightarrow> s_daily_report_printed s | None \<Rightarrow> False) then 0 else 1)"
    using o1 by simp
  have m: "s_daily_report_printed (mark_report_printed now2 (mark_report_printed now1 s0))
         \<and> s_report_printed_at (mark_report_printed now2 (mark_report_printed now1 s0)) = Some now2"
    by (simp add: mark_report_printed_def)
  show ?thesis
    unfolding Let_def using o1 o2 au2 len m by blast
qed

theorem mark_report_printed_overwrites_timestamp:
  "s_report_printed_at (mark_report_printed 90000 session0) = Some 90000
   \<and> s_report_printed_at (mark_report_printed 90100 (mark_report_printed 90000 session0)) \<noteq> Some 90000"
  by (simp add: mark_report_printed_def)

theorem mark_report_printed_twice_witness:
  "u_role cashier7 = CASHIER \<and> u_branch_id cashier7 = Some 1 \<and> date_of 90100 = date_of 90000
   \<and> map s_report_printed_at
        (cashier_sessions (snd (mark_daily_report_printed cashier7 90100
           (snd (mark_daily_report_printed cashier7 90000 (empty_db\<lparr>cashier_sessions := [session0]\<rparr>))))))
       = [Some 90100]
   \<and> length (audit_logs (snd (mark_daily_report_printed cashier7 90100
           (snd (mark_daily_report_printed cashier7 90000 (empty_db\<lparr>cashier_sessions := [session0]\<rparr>)))))) = 1"
proof -
  have h: "u_role cashier7 = CASHIER" "u_branch_id cashier7 = Some 1" "date_of 90100 = date_of 90000"
    by (simp_all add: cashier7_def date_of_def)
  have e1: "map s_report_printed_at
        (cashier_sessions (snd (mark_daily_report_printed cashier7 90100
           (snd (mark_daily_report_printed cashier7 90000 (empty_db\<lparr>cashier_sessions := [session0]\<rparr>))))))
       = [Some 90100]"
    by (simp add: mark_daily_report_printed_def get_or_create_today_session_def todays_session_def
        ensure_branch_def mark_report_printed_def session0_def cashier7_def empty_db_def date_of_def
        Let_def)
  have s0: "session_of (empty_db\<lparr>cashier_sessions := [session0]\<rparr>) (u_id cashier7) 90000 = Some session0
            \<and> \<not> s_daily_report_printed session0"
    by (simp add: session_of_def todays_session_def session0_def cashier7_def empty_db_def date_of_def)
  have "length (audit_logs (snd (mark_daily_report_printed cashier7 90100
           (snd (mark_daily_report_printed cashier7 90000 (empty_db\<lparr>cashier_sessions := [session0]\<rparr>)))))) = 1"
    using mark_report_printed_twice [OF h, where d = "empty_db\<lparr>cashier_sessions := [session0]\<rparr>"
          and ?s0.0 = session0, unfolded Let_def] s0
    by (simp add: empty_db_def)
  then show ?thesis using h e1 by simp
qed

subsection \<open>Creating an order\<close>

lemma create_fail_fields: "\<not> cr_success (create_fail c m) \<and> cr_error_type (create_fail c m) = None"
  by (simp add: create_fail_def)

lemma build_item_Return:
  "build_item d it = Return r \<Longrightarrow> \<exists>c m. r = create_fail c m"
  by (auto simp: build_item_def Let_def split: if_splits option.splits item_ref.splits)

lemma build_items_Return:
  "build_items d its = Return r \<Longrightarrow> \<exists>c m. r = create_fail c m"
proof (induction its arbitrary: r)
  case Nil
  then show ?case by simp
next
  case (Cons it its)
  show ?case
  proof (cases "build_item d it")
    case (Raise e)
    then show ?thesis using Cons.prems by simp
  next
    case (Return r')
    then show ?thesis using Cons.prems build_item_Return [of d it r'] by simp
  next
    case (Continue x)
    then show ?thesis using Cons
      by (cases x; cases "build_items d its") (auto split: prod.splits)
  qed
qed

lemma prepare_order_Return:
  "prepare_order cu rq d = Return r \<Longrightarrow> \<exists>c m. r = create_fail c m"
  using build_items_Return [of d "rq_items rq" r]
  by (auto simp: prepare_order_def split: if_splits outcome.splits prod.splits)

text \<open>
  C2 (amended). A waiter without a usable assignment (no assignment row for the waiter and
  branch, or one whose cashier does not exist) cannot create or extend an order: the call
  fails and the database is unchanged, so no order row is added and no counter is
  incremented. When the request passes the checks that come first (items present, the
  order to extend found, every line resolved), the failure is the
  \<^verbatim>\<open>no_cashier_assignment\<close> response.
\<close>

theorem create_order_without_assignment:
  assumes role: "u_role cu = WAITER" and none: "assigned_cashier_of d cu = None"
  shows "\<not> cr_success (fst (create_order cu rq order_no stamp now d))
       \<and> snd (create_order cu rq order_no stamp now d) = d
       \<and> orders (snd (create_order cu rq order_no stamp now d)) = orders d
       \<and> order_counters (snd (create_order cu rq order_no stamp now d)) = order_counters d
       \<and> ((\<exists>x. prepare_order cu rq d = Continue x) \<longrightarrow>
            fst (create_order cu rq order_no stamp now d) = no_cashier_assignment_response
            \<and> cr_error_type (fst (create_order cu rq order_no stamp now d))
                = Some ''no_cashier_assignment'')"
proof (cases "prepare_order cu rq d")
  case (Raise e)
  then show ?thesis by (simp add: create_order_def create_fail_fields)
next
  case (Return r)
  then show ?thesis using prepare_order_Return [OF Return]
    by (auto simp: create_order_def create_fail_fields)
next
  case (Continue x)
  then show ?thesis using role none
    by (cases x) (simp add: create_order_def no_cashier_assignment_response_def)
qed

theorem create_order_no_items_generic_error:
  "u_role waiter9 = WAITER
   \<and> get_assignment_for_waiter db_menu (u_id waiter9) (u_branch_id waiter9) = None
   \<and> cr_error_type (fst (create_order waiter9 empty_request ''ORD19700102WXYZ'' ''1970-01-02 04:00:00''
                            90000 db_menu)) = None
   \<and> cr_message (fst (create_order waiter9 empty_request ''ORD19700102WXYZ'' ''1970-01-02 04:00:00''
                            90000 db_menu)) = ''No items in order''"
  by (simp add: create_order_def prepare_order_def empty_request_def table_request_def create_fail_def
      get_assignment_for_waiter_def db_menu_def empty_db_def waiter9_def)

lemmas create_eval_defs = prepare_order_def build_item_def menu_item_by_id_def
  menu_item_by_name_def new_order_item_def find_existing_order_def

theorem create_order_without_assignment_witness:
  "u_role waiter9 = WAITER \<and> assigned_cashier_of db_menu waiter9 = None
   \<and> (\<exists>x. prepare_order waiter9 table_request db_menu = Continue x)
   \<and> cr_error_type (fst (create_order waiter9 table_request ''ORD19700102WXYZ'' ''1970-01-02 04:00:00''
                            90000 db_menu)) = Some ''no_cashier_assignment''
   \<and> orders (snd (create_order waiter9 table_request ''ORD19700102WXYZ'' ''1970-01-02 04:00:00''
                            90000 db_menu)) = []
   \<and> map c_current_counter
        (order_counters (snd (create_order waiter9 table_request ''ORD19700102WXYZ''
                                ''1970-01-02 04:00:00'' 90000 db_menu))) = [5]"
proof -
  have role: "u_role waiter9 = WAITER" by (simp add: waiter9_def)
  have none: "assigned_cashier_of db_menu waiter9 = None"
    by (simp add: assigned_cashier_of_def get_assignment_for_waiter_def db_menu_def empty_db_def)
  have prep: "\<exists>x. prepare_order waiter9 table_request db_menu = Continue x"
    by (simp add: create_eval_defs table_request_def falafel_line_def db_menu_def empty_db_def
        falafel_def)
  have os: "orders db_menu = [] \<and> map c_current_counter (order_counters db_menu) = [5]"
    by (simp add: db_menu_def empty_db_def)
  show ?thesis
    using create_order_without_assignment [OF role none, of table_request "''ORD19700102WXYZ''"
        "''1970-01-02 04:00:00''" 90000] role none prep os
    by (simp add: no_cashier_assignment_response_def)
qed

lemma waiter_note_tagged:
  "waiter_note cu ac = WAITER_TAG @ '' Created by: '' @ get_full_name cu @ '' | Assigned to: ''
       @ get_full_name ac @ '' (Admin Assigned)''"
  by (simp add: waiter_note_def WAITER_TAG_def)

lemma append_items_orders: "orders (append_items i xs d) = orders d"
  by (simp add: append_items_def)

lemma track_cashier_session_waiter:
  "u_role cu = WAITER \<Longrightarrow> track_cashier_session cu now d = d"
  by (simp add: track_cashier_session_def)

lemma insert_new_order_orders:
  assumes "insert_new_order cu rq order_no order_notes assigned st service amount new_items now d
             = Inr (r, d1)"
  shows "\<exists>row. orders d1 = orders d @ [row] \<and> o_notes row = order_notes
           \<and> Some (o_id row) = cr_order_id r \<and> status row = st \<and> cr_is_update r = Some False"
  using assms
  by (auto simp: insert_new_order_def Let_def append_items_orders
      split: option.splits prod.splits if_splits)

lemma update_existing_order_is_update:
  "cr_is_update (fst (update_existing_order cu order amount new_items stamp d)) = Some True"
  by (simp add: update_existing_order_def Let_def)

lemma create_order_waiter_new_row:
  assumes role: "u_role cu = WAITER"
    and succ: "cr_success (fst (create_order cu rq order_no stamp now d))"
    and new: "cr_is_update (fst (create_order cu rq order_no stamp now d)) = Some False"
  shows "\<exists>row ss. orders (snd (create_order cu rq order_no stamp now d)) = orders d @ [row]
           \<and> Some (o_id row) = cr_order_id (fst (create_order cu rq order_no stamp now d))
           \<and> status row = PENDING
           \<and> o_notes row = Some (WAITER_TAG @ ss)"
proof (cases "prepare_order cu rq d")
  case (Raise e)
  then show ?thesis using succ by (simp add: create_order_def create_fail_fields)
next
  case (Return r)
  then show ?thesis using succ prepare_order_Return [OF Return]
    by (auto simp: create_order_def create_fail_fields)
next
  case (Continue x)
  obtain ex amount new_items where x: "x = (ex, amount, new_items)" by (cases x) auto
  have ac: "assigned_cashier_of d cu \<noteq> None"
  proof
    assume "assigned_cashier_of d cu = None"
    then have "fst (create_order cu rq order_no stamp now d) = no_cashier_assignment_response"
      using Continue x role by (simp add: create_order_def)
    then show False using succ by (simp add: no_cashier_assignment_response_def)
  qed
  from ac obtain acv where acv: "assigned_cashier_of d cu = Some acv" by auto
  let ?notes = "Some (if rq_notes rq \<noteq> None \<and> rq_notes rq \<noteq> Some []
                      then waiter_note cu (the (assigned_cashier_of d cu)) @ CHR 0x0A # the (rq_notes rq)
                      else waiter_note cu (the (assigned_cashier_of d cu)))"
  let ?assigned = "map_option w_assigned_cashier_id
                     (get_assignment_for_waiter d (u_id cu) (u_branch_id cu))"
  have tagged: "\<exists>ss. ?notes = Some (WAITER_TAG @ ss)"
    by (simp add: waiter_note_tagged)
  show ?thesis
  proof (cases "parse_service_type (rq_service_type rq)")
    case (Inl e)
    then show ?thesis using succ Continue x role acv
      by (simp add: create_order_def create_fail_fields)
  next
    case (Inr service)
    show ?thesis
    proof (cases ex)
      case (Some order)
      obtain r1 d1 where u: "update_existing_order cu order amount new_items stamp d = (r1, d1)"
        by (cases "update_existing_order cu order amount new_items stamp d") auto
      have "cr_is_update r1 = Some True"
        using update_existing_order_is_update [of cu order amount new_items stamp d] u by simp
      moreover have "fst (create_order cu rq order_no stamp now d) = r1"
        using Continue x role acv Inr Some u by (simp add: create_order_def)
      ultimately show ?thesis using new by simp
    next
      case None
      show ?thesis
      proof (cases "insert_new_order cu rq order_no ?notes ?assigned PENDING service amount new_items now d")
        case (Inl e)
        then show ?thesis using succ Continue x role acv Inr None
          by (simp add: create_order_def create_fail_fields)
      next
        case ins: (Inr p)
        obtain r d1 where p: "p = (r, d1)" by (cases p) auto
        have res: "create_order cu rq order_no stamp now d = (r, d1)"
          using Continue x role acv Inr None ins p
          by (simp add: create_order_def track_cashier_session_waiter)
        from insert_new_order_orders [OF ins [unfolded p]]
        obtain row where "orders d1 = orders d @ [row]" "o_notes row = ?notes"
          "Some (o_id row) = cr_order_id r" "status row = PENDING" by blast
        then show ?thesis using tagged unfolding res by auto
      qed
    qed
  qed
qed

subsection \<open>The edit trail\<close>














end
